theory Spec2Isabelle
  imports Main
begin

section \<open>Data model of pkg/prow/apiv1/config.go\<close>

text \<open>
  A Go \<open>map[string]T\<close> is modelled as the list of its key/value pairs, in the order a
  \<open>range\<close> loop visits them. Go leaves that order unspecified, so every theorem below
  holds for whatever order the list has. A Go map holds each key once: \<open>gomap_ok\<close>.
  A pointer field \<open>*T\<close> is a \<open>T option\<close>, \<open>None\<close> for nil.
\<close>

type_synonym 'v gomap = "(string \<times> 'v) list"

definition gomap_ok :: "'v gomap \<Rightarrow> bool" where
  "gomap_ok m = distinct (map fst m)"

text \<open>\<open>m[k]\<close> on a map of slices: the nil (empty) slice when the key is absent.\<close>

definition index :: "('v list) gomap \<Rightarrow> string \<Rightarrow> 'v list" where
  "index m k = (case map_of m k of None \<Rightarrow> [] | Some v \<Rightarrow> v)"

text \<open>\<open>m[k] = v\<close>.\<close>

primrec store :: "'v gomap \<Rightarrow> string \<Rightarrow> 'v \<Rightarrow> 'v gomap" where
  "store [] k v = [(k, v)]"
| "store (p # ps) k v = (if fst p = k then (k, v) # ps else p # store ps k v)"

text \<open>
  \<open>DecorationConfig\<close> is declared outside this file. It is a structure of optional
  fields; it is kept here as the list of the fields that are set, each with its value.
\<close>

type_synonym DecorationConfig = "string gomap"

record Refs =
  Org :: string
  Repo :: string

record Container =
  Command :: "string list"
  Args :: "string list"
  Env :: "(string \<times> string) list"

record PodSpec =
  Containers :: "Container list"
  InitContainers :: "Container list"
  Volumes :: "string list"

record RerunAuthConfig =
  AllowAnyone :: bool
  GitHubUsers :: "string list"
  GitHubTeamIDs :: "int list"
  GitHubTeamSlugs :: "(string \<times> string) list"

record JobBase =
  Name :: string
  Labels :: "string gomap"
  MaxConcurrency :: int
  Agent :: string
  Cluster :: string
  Namespace :: "string option"
  ErrorOnEviction :: bool
  SourcePath :: string
  Spec :: "PodSpec option"
  RerunAuthConfig :: "RerunAuthConfig option"
  Decorate :: bool
  DecorationConfig :: "DecorationConfig option"
  ExtraRefs :: "Refs list"

record 're Brancher =
  SkipBranches :: "string list"
  Branches :: "string list"
  re :: "'re option"
  reSkip :: "'re option"

record 're RegexpChangeMatcher =
  RunIfChanged :: string
  reChanges :: "'re option"

record 're Presubmit =
  JobBase :: JobBase
  AlwaysRun :: bool
  Context :: string
  SkipReport :: bool
  Trigger :: string
  RerunCommand :: string
  Brancher :: "'re Brancher"
  RegexpChangeMatcher :: "'re RegexpChangeMatcher"
  re :: "'re option"

record 're Postsubmit =
  JobBase :: JobBase
  Context :: string
  SkipReport :: bool
  Brancher :: "'re Brancher"
  RegexpChangeMatcher :: "'re RegexpChangeMatcher"

record Periodic =
  JobBase :: JobBase
  Interval :: string
  Cron :: string
  interval :: int

record Preset =
  Labels :: "string gomap"
  Env :: "(string \<times> string) list"
  Volumes :: "string list"

record 're JobConfig =
  Presets :: "Preset list"
  Presubmits :: "('re Presubmit list) gomap"
  Postsubmits :: "('re Postsubmit list) gomap"
  Periodics :: "Periodic list"
  AllRepos :: "string list"

record Plank =
  DefaultDecorationConfig :: "DecorationConfig option"
  DefaultDecorationConfigs :: "(DecorationConfig option) gomap"

text \<open>\<open>Config\<close> embeds \<open>JobConfig\<close> and \<open>ProwConfig\<close>; of the latter, the fields the job
  pipeline reads.\<close>

record 're Config = "'re JobConfig" +
  Plank :: Plank
  PodNamespace :: string

datatype ProwJobType = PresubmitJob | PostsubmitJob | PeriodicJob

text \<open>
  An error is kept as the source builds it: the format string of \<open>fmt.Errorf\<close> (or the
  text of \<open>errors.New\<close>) with its arguments, unrendered. A nil \<open>error\<close> is \<open>None\<close>.
\<close>

datatype error = Errorf string "arg list"
  and arg = S string | I int | E error | L "string list"

text \<open>
  What the file calls and does not define: the standard library (\<open>regexp\<close>, \<open>time\<close>), the
  Kubernetes validation helpers, and the declarations of this package that live in other
  files (the agent constants, \<open>DecorationConfig.Validate\<close>, \<open>Brancher.Intersects\<close>,
  \<open>mergePreset\<close>). They are parameters of the model, so every theorem holds for whatever
  they compute. \<open>'re\<close> is the type of a compiled \<open>*regexp.Regexp\<close>.
\<close>

record 're ext =
  KubernetesAgent :: string
  KnativeBuildAgent :: string
  JenkinsAgent :: string
  TektonAgent :: string
  regexp_Compile :: "string \<Rightarrow> error + 're"
  MatchString :: "'re \<Rightarrow> string \<Rightarrow> bool"
  ParseDuration :: "string \<Rightarrow> error + int"
  IsQualifiedName :: "string \<Rightarrow> string list"
  IsValidLabelValue :: "string \<Rightarrow> string list"
  Validate :: "DecorationConfig option \<Rightarrow> error option"
  Intersects :: "'re Brancher \<Rightarrow> 're Brancher \<Rightarrow> bool"
  mergePreset :: "Preset \<Rightarrow> string gomap \<Rightarrow> Container list \<Rightarrow> string list
                  \<Rightarrow> error + (Container list \<times> string list)"

section \<open>A model of the regexp package\<close>

text \<open>
  The part of Go's \<open>regexp\<close> that the patterns built by this file need: literals, \<open>.\<close>,
  \<open>^\<close> and \<open>$\<close> with and without the flag \<open>m\<close>, \<open>*\<close>, \<open>+\<close>, \<open>?\<close>, \<open>|\<close>, groups,
  \<open>(?m)\<close>, \<open>(?:\<close> and the escapes \<open>\s\<close>, \<open>\S\<close>, \<open>\d\<close>, \<open>\D\<close> and escaped punctuation.
  Strings are read byte by byte. A pattern outside this part (a character class, a counted
  repetition, a non-greedy operator) is answered with an error, so the model says nothing
  about it. \<open>MatchString\<close> is unanchored.
\<close>

datatype cset = Only "char list" | Except "char list"

fun inCset :: "cset \<Rightarrow> char \<Rightarrow> bool" where
  "inCset (Only cs) c = (c \<in> set cs)"
| "inCset (Except cs) c = (c \<notin> set cs)"

datatype regex =
    EmptyR
  | Sym cset
  | Bol bool
  | Eol bool
  | Seq regex regex
  | Alt regex regex
  | Star regex

definition newline :: char where
  "newline = CHR 0x0A"

text \<open>
  \<open>ends r t ps\<close>: the positions of \<open>t\<close> where a match of \<open>r\<close> can end when it starts at one of
  the positions \<open>ps\<close>. A starred expression is iterated once for each character of \<open>t\<close>,
  which reaches every position it can reach at all.
\<close>

primrec ends :: "regex \<Rightarrow> string \<Rightarrow> nat list \<Rightarrow> nat list" where
  "ends EmptyR t ps = ps"
| "ends (Sym cs) t ps = map Suc (filter (\<lambda>p. p < length t \<and> inCset cs (t ! p)) ps)"
| "ends (Bol m) t ps = filter (\<lambda>p. p = 0 \<or> (m \<and> p \<le> length t \<and> t ! (p - 1) = newline)) ps"
| "ends (Eol m) t ps = filter (\<lambda>p. p = length t \<or> (m \<and> p < length t \<and> t ! p = newline)) ps"
| "ends (Seq a b) t ps = ends b t (ends a t ps)"
| "ends (Alt a b) t ps = ends a t ps @ ends b t ps"
| "ends (Star a) t ps = ((\<lambda>qs. remdups (ps @ ends a t qs)) ^^ length t) (remdups ps)"

definition goMatchString :: "regex \<Rightarrow> string \<Rightarrow> bool" where
  "goMatchString r s = (ends r s [0..<Suc (length s)] \<noteq> [])"

text \<open>
  The parser reads the pattern from left to right. It keeps one frame for each open group:
  the alternatives already closed by \<open>|\<close>, the pieces of the alternative being read (last
  piece first), whether the last piece is a repetition, and the flag \<open>m\<close>.
\<close>

record frame =
  alts :: "regex list"
  cur :: "regex list"
  rep :: bool
  multi :: bool

datatype pmode = Normal | Escape | Opened | Flags bool

definition seqOf :: "regex list \<Rightarrow> regex" where
  "seqOf rs = foldl (\<lambda>acc a. Seq a acc) EmptyR rs"

definition altOf :: "regex list \<Rightarrow> regex" where
  "altOf rs = (case rs of [] \<Rightarrow> EmptyR | r # rest \<Rightarrow> foldl (\<lambda>acc a. Alt a acc) r rest)"

definition finish :: "frame \<Rightarrow> regex" where
  "finish f = altOf (seqOf (cur f) # alts f)"

definition atom :: "regex \<Rightarrow> frame \<Rightarrow> frame" where
  "atom r f = f\<lparr>cur := r # cur f, rep := False\<rparr>"

definition repeat :: "string \<Rightarrow> (regex \<Rightarrow> regex) \<Rightarrow> frame \<Rightarrow> error + frame" where
  "repeat pat op f =
     (case cur f of
        [] \<Rightarrow> Inl (Errorf ''error parsing regexp: missing argument to repetition operator in %s'' [S pat])
      | a # rest \<Rightarrow>
          if rep f then Inl (Errorf ''regexp outside the modelled fragment: %s'' [S pat])
          else Inr (f\<lparr>cur := op a # rest, rep := True\<rparr>))"

definition alnum :: "char \<Rightarrow> bool" where
  "alnum c =
     (let n = (of_char c :: nat) in
      (48 \<le> n \<and> n \<le> 57) \<or> (65 \<le> n \<and> n \<le> 90) \<or> (97 \<le> n \<and> n \<le> 122))"

definition escaped :: "string \<Rightarrow> char \<Rightarrow> error + regex" where
  "escaped pat c =
     (if c = CHR ''s'' then Inr (Sym (Only [CHR 0x09, CHR 0x0A, CHR 0x0C, CHR 0x0D, CHR '' '']))
      else if c = CHR ''S'' then Inr (Sym (Except [CHR 0x09, CHR 0x0A, CHR 0x0C, CHR 0x0D, CHR '' '']))
      else if c = CHR ''d'' then Inr (Sym (Only ''0123456789''))
      else if c = CHR ''D'' then Inr (Sym (Except ''0123456789''))
      else if (of_char c :: nat) < 128 \<and> \<not> alnum c then Inr (Sym (Only [c]))
      else Inl (Errorf ''regexp outside the modelled fragment: %s'' [S pat]))"

definition pnormal :: "string \<Rightarrow> frame \<Rightarrow> frame list \<Rightarrow> char \<Rightarrow> error + pmode \<times> frame list" where
  "pnormal pat f fs c =
     (if c = CHR 0x5C then Inr (Escape, f # fs)
      else if c = CHR ''('' then Inr (Opened, f # fs)
      else if c = CHR '')'' then
        (case fs of
           [] \<Rightarrow> Inl (Errorf ''error parsing regexp: unexpected ): %s'' [S pat])
         | g # gs \<Rightarrow> Inr (Normal, atom (finish f) g # gs))
      else if c = CHR ''|'' then Inr (Normal, f\<lparr>alts := seqOf (cur f) # alts f, cur := [], rep := False\<rparr> # fs)
      else if c = CHR ''*'' then
        (case repeat pat Star f of Inl e \<Rightarrow> Inl e | Inr f' \<Rightarrow> Inr (Normal, f' # fs))
      else if c = CHR ''+'' then
        (case repeat pat (\<lambda>a. Seq a (Star a)) f of Inl e \<Rightarrow> Inl e | Inr f' \<Rightarrow> Inr (Normal, f' # fs))
      else if c = CHR ''?'' then
        (case repeat pat (\<lambda>a. Alt a EmptyR) f of Inl e \<Rightarrow> Inl e | Inr f' \<Rightarrow> Inr (Normal, f' # fs))
      else if c = CHR ''^'' then Inr (Normal, atom (Bol (multi f)) f # fs)
      else if c = CHR ''$'' then Inr (Normal, atom (Eol (multi f)) f # fs)
      else if c = CHR ''.'' then Inr (Normal, atom (Sym (Except [newline])) f # fs)
      else if c = CHR ''['' \<or> c = CHR ''{'' then Inl (Errorf ''regexp outside the modelled fragment: %s'' [S pat])
      else Inr (Normal, atom (Sym (Only [c])) f # fs))"

fun pstep :: "string \<Rightarrow> pmode \<times> frame list \<Rightarrow> char \<Rightarrow> error + pmode \<times> frame list" where
  "pstep pat (mode, []) c = Inl (Errorf ''error parsing regexp: %s'' [S pat])"
| "pstep pat (Normal, f # fs) c = pnormal pat f fs c"
| "pstep pat (Escape, f # fs) c =
     (case escaped pat c of Inl e \<Rightarrow> Inl e | Inr r \<Rightarrow> Inr (Normal, atom r f # fs))"
| "pstep pat (Opened, f # fs) c =
     (if c = CHR ''?'' then Inr (Flags False, f # fs)
      else pnormal pat \<lparr>alts = [], cur = [], rep = False, multi = multi f\<rparr> (f # fs) c)"
| "pstep pat (Flags seen, f # fs) c =
     (if c = CHR ''m'' then Inr (Flags True, f # fs)
      else if c = CHR '')'' \<and> seen then Inr (Normal, f\<lparr>multi := True\<rparr> # fs)
      else if c = CHR '':''
        then Inr (Normal, \<lparr>alts = [], cur = [], rep = False, multi = (multi f \<or> seen)\<rparr> # f # fs)
      else Inl (Errorf ''regexp outside the modelled fragment: %s'' [S pat]))"

fun prun :: "string \<Rightarrow> pmode \<times> frame list \<Rightarrow> string \<Rightarrow> error + pmode \<times> frame list" where
  "prun pat st [] = Inr st"
| "prun pat st (c # cs) = (case pstep pat st c of Inl e \<Rightarrow> Inl e | Inr st' \<Rightarrow> prun pat st' cs)"

definition goCompile :: "string \<Rightarrow> error + regex" where
  "goCompile pat =
     (case prun pat (Normal, [\<lparr>alts = [], cur = [], rep = False, multi = False\<rparr>]) pat of
        Inl e \<Rightarrow> Inl e
      | Inr (Normal, [f]) \<Rightarrow> Inr (finish f)
      | Inr _ \<Rightarrow> Inl (Errorf ''error parsing regexp: %s'' [S pat]))"

section \<open>Default trigger and rerun command\<close>

text \<open>\<open>fmt.Sprintf\<close> with one \<open>%s\<close>: the name is put between the two parts of the format.
  \<open>CHR 0x5C\<close> is the backslash of \<open>\s\<close>.\<close>

definition DefaultTriggerFor :: "string \<Rightarrow> string" where
  "DefaultTriggerFor name = ''(?m)^/test( | .* )'' @ name @ '',?($|'' @ [CHR 0x5C] @ ''s.*)''"

definition DefaultRerunCommandFor :: "string \<Rightarrow> string" where
  "DefaultRerunCommandFor name = ''/test '' @ name"

text \<open>
  What the parser makes of the default trigger: the pieces of its fixed prefix and suffix
  (last piece first), and the piece for one character of a job name.
\<close>

definition nameAtom :: "char \<Rightarrow> regex" where
  "nameAtom c = (if c = CHR ''.'' then Sym (Except [newline]) else Sym (Only [c]))"

definition triggerPrefix :: "regex list" where
  "triggerPrefix =
     [Alt (Seq (Sym (Only '' '')) EmptyR)
        (Seq (Sym (Only '' '')) (Seq (Star (Sym (Except [newline]))) (Seq (Sym (Only '' '')) EmptyR))),
      Sym (Only ''t''), Sym (Only ''s''), Sym (Only ''e''), Sym (Only ''t''), Sym (Only ''/''),
      Bol True]"

definition triggerSuffix :: "regex list" where
  "triggerSuffix =
     [Alt (Seq (Eol True) EmptyR)
        (Seq (Sym (Only [CHR 0x09, CHR 0x0A, CHR 0x0C, CHR 0x0D, CHR '' '']))
           (Seq (Star (Sym (Except [newline]))) EmptyR)),
      Alt (Sym (Only '','')) EmptyR]"

section \<open>mergeJobConfigs\<close>

text \<open>
  The inner loop of the preset check: \<open>seen\<close> is \<open>validLabels\<close>, the pairs met so far.
\<close>

fun checkLabels :: "string list \<Rightarrow> (string \<times> string) list \<Rightarrow> error + string list" where
  "checkLabels seen [] = Inr seen"
| "checkLabels seen ((label, val) # rest) =
     (let pair = label @ '':'' @ val in
      if pair \<in> set seen
      then Inl (Errorf ''duplicated preset 'label:value' pair : %s'' [S pair])
      else checkLabels (pair # seen) rest)"

fun checkPresets :: "string list \<Rightarrow> Preset list \<Rightarrow> error + string list" where
  "checkPresets seen [] = Inr seen"
| "checkPresets seen (preset # rest) =
     (case checkLabels seen (Preset.Labels preset) of
        Inl e \<Rightarrow> Inl e
      | Inr seen' \<Rightarrow> checkPresets seen' rest)"

text \<open>
  \<open>for repo, jobs := range a { c[repo] = jobs }\<close> and
  \<open>for repo, jobs := range b { c[repo] = append(c[repo], jobs...) }\<close>.
\<close>

definition copyJobs :: "('j list) gomap \<Rightarrow> ('j list) gomap \<Rightarrow> ('j list) gomap" where
  "copyJobs c a = foldl (\<lambda>c (repo, jobs). store c repo jobs) c a"

definition appendJobs :: "('j list) gomap \<Rightarrow> ('j list) gomap \<Rightarrow> ('j list) gomap" where
  "appendJobs c b = foldl (\<lambda>c (repo, jobs). store c repo (index c repo @ jobs)) c b"

definition mergeJobConfigs :: "'re JobConfig \<Rightarrow> 're JobConfig \<Rightarrow> error + 're JobConfig" where
  "mergeJobConfigs a b =
     (let presets = Presets a @ Presets b in
      case checkPresets [] presets of
        Inl e \<Rightarrow> Inl e
      | Inr _ \<Rightarrow>
          Inr \<lparr> Presets = presets,
                Presubmits = appendJobs (copyJobs [] (Presubmits a)) (Presubmits b),
                Postsubmits = appendJobs (copyJobs [] (Postsubmits a)) (Postsubmits b),
                Periodics = Periodics a @ Periodics b,
                AllRepos = [] \<rparr>)"

section \<open>Validation\<close>

text \<open>
  \<open>jobNameRegex\<close> is \<open>^[A-Za-z0-9-._]+$\<close>, compiled without the multi-line flag: the
  whole string, not empty, is made of ASCII letters, digits, \<open>-\<close>, \<open>.\<close> and \<open>_\<close>.
\<close>

definition jobNameRegex_String :: string where
  "jobNameRegex_String = ''^[A-Za-z0-9-._]+$''"

definition jobNameChar :: "char \<Rightarrow> bool" where
  "jobNameChar c =
     (let n = (of_char c :: nat) in
      (65 \<le> n \<and> n \<le> 90) \<or> (97 \<le> n \<and> n \<le> 122) \<or> (48 \<le> n \<and> n \<le> 57) \<or>
      c = CHR ''-'' \<or> c = CHR ''.'' \<or> c = CHR ''_'')"

definition jobNameRegex_MatchString :: "string \<Rightarrow> bool" where
  "jobNameRegex_MatchString s = (s \<noteq> [] \<and> list_all jobNameChar s)"

definition validateAgent :: "'re ext \<Rightarrow> JobBase \<Rightarrow> string \<Rightarrow> error option" where
  "validateAgent x v podNamespace =
     (let k = KubernetesAgent x; b = KnativeBuildAgent x; j = JenkinsAgent x; p = TektonAgent x;
          agent = Agent v in
      if agent \<notin> set [k, b, j, p] then None
      else if Spec v \<noteq> None \<and> agent \<noteq> k
        then Some (Errorf ''job specs require agent: %s (found %q)'' [S k, S agent])
      else if agent = k \<and> Spec v = None
        then Some (Errorf ''kubernetes jobs require a spec'' [])
      else if DecorationConfig v \<noteq> None \<and> agent \<noteq> k \<and> agent \<noteq> b
        then Some (Errorf ''decoration requires agent: %s or %s (found %q)'' [S k, S b, S agent])
      else if ErrorOnEviction v \<and> agent \<noteq> k
        then Some (Errorf ''error_on_eviction only applies to agent: %s (found %q)'' [S k, S agent])
      else (case Namespace v of
              None \<Rightarrow> Some (Errorf ''failed to default namespace'' [])
            | Some ns \<Rightarrow>
                if ns = [] then Some (Errorf ''failed to default namespace'' [])
                else if ns \<noteq> podNamespace \<and> agent \<noteq> b \<and> agent \<noteq> p
                  then Some (Errorf ''namespace customization requires agent: %s or %s (found %q)''
                               [S b, S p, S agent])
                else None))"

definition validatePodSpec :: "ProwJobType \<Rightarrow> PodSpec option \<Rightarrow> error option" where
  "validatePodSpec jobType spec =
     (case spec of
        None \<Rightarrow> None
      | Some sp \<Rightarrow>
          if length (InitContainers sp) \<noteq> 0
            then Some (Errorf ''pod spec may not use init containers'' [])
          else if length (Containers sp) \<noteq> 1
            then Some (Errorf ''pod spec must specify exactly 1 container, found: %d''
                         [I (int (length (Containers sp)))])
          else None)"

fun validateLabels :: "'re ext \<Rightarrow> string gomap \<Rightarrow> error option" where
  "validateLabels x [] = None"
| "validateLabels x ((label, val) # rest) =
     (if length (IsQualifiedName x label) \<noteq> 0
        then Some (Errorf ''invalid label %s: %v'' [S label, L (IsQualifiedName x label)])
      else if length (IsValidLabelValue x val) \<noteq> 0
        then Some (Errorf ''label %s has invalid value %s: %v''
                     [S label, S val, L (IsValidLabelValue x val)])
      else validateLabels x rest)"

definition validateDecoration :: "'re ext \<Rightarrow> Container \<Rightarrow> DecorationConfig option \<Rightarrow> error option" where
  "validateDecoration x container config =
     (case config of
        None \<Rightarrow> None
      | Some cfg \<Rightarrow>
          (case Validate x (Some cfg) of
             Some err \<Rightarrow> Some (Errorf ''invalid decoration config: %v'' [E err])
           | None \<Rightarrow>
               (case Command container @ Args container of
                  [] \<Rightarrow> Some (Errorf ''decorated job containers must specify command and/or args'' [])
                | a # _ \<Rightarrow>
                    if a = []
                      then Some (Errorf ''decorated job containers must specify command and/or args'' [])
                    else None)))"

definition validateJobBase :: "'re ext \<Rightarrow> JobBase \<Rightarrow> ProwJobType \<Rightarrow> string \<Rightarrow> error option" where
  "validateJobBase x v jobType podNamespace =
     (if \<not> jobNameRegex_MatchString (Name v)
        then Some (Errorf ''name: must match regex %q'' [S jobNameRegex_String])
      else if MaxConcurrency v < 0
        then Some (Errorf ''max_concurrency: %d must be a non-negative number'' [I (MaxConcurrency v)])
      else (case validateAgent x v podNamespace of
        Some err \<Rightarrow> Some err
      | None \<Rightarrow> (case validatePodSpec jobType (Spec v) of
        Some err \<Rightarrow> Some err
      | None \<Rightarrow> (case validateLabels x (JobBase.Labels v) of
        Some err \<Rightarrow> Some err
      | None \<Rightarrow> (case Spec v of
        None \<Rightarrow> None
      | Some sp \<Rightarrow> (case Containers sp of
        [] \<Rightarrow> None
      | c0 # _ \<Rightarrow>
          if (case RerunAuthConfig v of
                None \<Rightarrow> False
              | Some r \<Rightarrow> AllowAnyone r \<and>
                  (length (GitHubUsers r) > 0 \<or> length (GitHubTeamIDs r) > 0 \<or>
                   length (GitHubTeamSlugs r) > 0))
            then Some (Errorf ''allow anyone is set to true and permitted users or groups are specified'' [])
          else validateDecoration x c0 (DecorationConfig v)))))))"

definition validateTriggering :: "'re Presubmit \<Rightarrow> error option" where
  "validateTriggering job =
     (let name = Name (Presubmit.JobBase job) in
      if AlwaysRun job \<and> RunIfChanged (Presubmit.RegexpChangeMatcher job) \<noteq> []
        then Some (Errorf ''job %s is set to always run but also declares run_if_changed targets, which are mutually exclusive'' [S name])
      else if \<not> Presubmit.SkipReport job \<and> Presubmit.Context job = []
        then Some (Errorf ''job %s is set to report but has no context configured'' [S name])
      else if (Trigger job \<noteq> [] \<and> RerunCommand job = []) \<or> (Trigger job = [] \<and> RerunCommand job \<noteq> [])
        then Some (Errorf ''Either both of job.Trigger and job.RerunCommand must be set, wasnt the case for job %q'' [S name])
      else None)"

text \<open>
  \<open>validatePresubmits\<close>: the loop over the list, with \<open>valid\<close> the map
  \<open>validPresubmits\<close> of the entries accepted so far, by name.
\<close>

fun validatePresubmitsFrom ::
  "'re ext \<Rightarrow> string \<Rightarrow> ('re Presubmit list) gomap \<Rightarrow> 're Presubmit list \<Rightarrow> error option" where
  "validatePresubmitsFrom x podNamespace valid [] = None"
| "validatePresubmitsFrom x podNamespace valid (ps # rest) =
     (let name = Name (Presubmit.JobBase ps) in
      if list_ex (\<lambda>existingJob. Intersects x (Presubmit.Brancher existingJob) (Presubmit.Brancher ps))
           (index valid name)
        then Some (Errorf ''duplicated presubmit job: %s'' [S name])
      else (case validateJobBase x (Presubmit.JobBase ps) PresubmitJob podNamespace of
        Some err \<Rightarrow> Some (Errorf ''invalid presubmit job %s: %v'' [S name, E err])
      | None \<Rightarrow> (case validateTriggering ps of
        Some err \<Rightarrow> Some err
      | None \<Rightarrow>
          validatePresubmitsFrom x podNamespace (store valid name (index valid name @ [ps])) rest)))"

definition validatePresubmits :: "'re ext \<Rightarrow> 're Presubmit list \<Rightarrow> string \<Rightarrow> error option" where
  "validatePresubmits x presubmits podNamespace = validatePresubmitsFrom x podNamespace [] presubmits"

fun validatePostsubmitsFrom ::
  "'re ext \<Rightarrow> string \<Rightarrow> ('re Postsubmit list) gomap \<Rightarrow> 're Postsubmit list \<Rightarrow> error option" where
  "validatePostsubmitsFrom x podNamespace valid [] = None"
| "validatePostsubmitsFrom x podNamespace valid (ps # rest) =
     (let name = Name (Postsubmit.JobBase ps) in
      if list_ex (\<lambda>existingJob. Intersects x (Postsubmit.Brancher existingJob) (Postsubmit.Brancher ps))
           (index valid name)
        then Some (Errorf ''duplicated postsubmit job: %s'' [S name])
      else (case validateJobBase x (Postsubmit.JobBase ps) PostsubmitJob podNamespace of
        Some err \<Rightarrow> Some (Errorf ''invalid postsubmit job %s: %v'' [S name, E err])
      | None \<Rightarrow>
          validatePostsubmitsFrom x podNamespace (store valid name (index valid name @ [ps])) rest))"

definition validatePostsubmits :: "'re ext \<Rightarrow> 're Postsubmit list \<Rightarrow> string \<Rightarrow> error option" where
  "validatePostsubmits x postsubmits podNamespace = validatePostsubmitsFrom x podNamespace [] postsubmits"

text \<open>\<open>validatePeriodics\<close>: \<open>valid\<close> is the set \<open>validPeriodics\<close> of the names met so far.\<close>

fun validatePeriodicsFrom :: "'re ext \<Rightarrow> string \<Rightarrow> string list \<Rightarrow> Periodic list \<Rightarrow> error option" where
  "validatePeriodicsFrom x podNamespace valid [] = None"
| "validatePeriodicsFrom x podNamespace valid (p # rest) =
     (let name = Name (Periodic.JobBase p) in
      if name \<in> set valid
        then Some (Errorf ''duplicated periodic job : %s'' [S name])
      else (case validateJobBase x (Periodic.JobBase p) PeriodicJob podNamespace of
        Some err \<Rightarrow> Some (Errorf ''invalid periodic job %s: %v'' [S name, E err])
      | None \<Rightarrow> validatePeriodicsFrom x podNamespace (name # valid) rest))"

definition validatePeriodics :: "'re ext \<Rightarrow> Periodic list \<Rightarrow> string \<Rightarrow> error option" where
  "validatePeriodics x periodics podNamespace = validatePeriodicsFrom x podNamespace [] periodics"

text \<open>The two \<open>range\<close> loops of \<open>validateJobConfig\<close> over the maps: the first error ends them.\<close>

fun validateEachPresubmits :: "'re ext \<Rightarrow> string \<Rightarrow> ('re Presubmit list) gomap \<Rightarrow> error option" where
  "validateEachPresubmits x podNamespace [] = None"
| "validateEachPresubmits x podNamespace ((repo, jobs) # rest) =
     (case validatePresubmits x jobs podNamespace of
        Some err \<Rightarrow> Some err
      | None \<Rightarrow> validateEachPresubmits x podNamespace rest)"

fun validateEachPostsubmits :: "'re ext \<Rightarrow> string \<Rightarrow> ('re Postsubmit list) gomap \<Rightarrow> error option" where
  "validateEachPostsubmits x podNamespace [] = None"
| "validateEachPostsubmits x podNamespace ((repo, jobs) # rest) =
     (case validatePostsubmits x jobs podNamespace of
        Some err \<Rightarrow> Some err
      | None \<Rightarrow> validateEachPostsubmits x podNamespace rest)"

text \<open>
  The last loop of \<open>validateJobConfig\<close>, over \<open>c.Periodics\<close>: it returns the list as the
  loop leaves it, with the error that ended it, if any. The entries before the failing one
  have been written; the failing one and those after it have not.
\<close>

fun setIntervals :: "'re ext \<Rightarrow> Periodic list \<Rightarrow> Periodic list \<times> error option" where
  "setIntervals x [] = ([], None)"
| "setIntervals x (p # rest) =
     (if Cron p \<noteq> [] \<and> Interval p \<noteq> []
        then (p # rest, Some (Errorf ''cron and interval cannot be both set in periodic %s''
                                [S (Name (Periodic.JobBase p))]))
      else if Cron p = [] \<and> Interval p = []
        then (p # rest, Some (Errorf ''cron and interval cannot be both empty in periodic %s''
                                [S (Name (Periodic.JobBase p))]))
      else if Cron p \<noteq> []
        then (case setIntervals x rest of (rest', err) \<Rightarrow> (p # rest', err))
      else (case ParseDuration x (Interval p) of
              Inl err \<Rightarrow> (p # rest, Some (Errorf ''cannot parse duration for %s: %v''
                                           [S (Name (Periodic.JobBase p)), E err]))
            | Inr d \<Rightarrow> (case setIntervals x rest of (rest', err) \<Rightarrow> (p\<lparr>interval := d\<rparr> # rest', err))))"

text \<open>\<open>validateJobConfig\<close> works on \<open>*Config\<close>: it returns the config as it leaves it, and
  the error.\<close>

definition validateJobConfig :: "'re ext \<Rightarrow> 're Config \<Rightarrow> 're Config \<times> error option" where
  "validateJobConfig x c =
     (case validateEachPresubmits x (PodNamespace c) (Presubmits c) of
        Some err \<Rightarrow> (c, Some err)
      | None \<Rightarrow> (case validateEachPostsubmits x (PodNamespace c) (Postsubmits c) of
        Some err \<Rightarrow> (c, Some err)
      | None \<Rightarrow> (case validatePeriodics x (Periodics c) (PodNamespace c) of
        Some err \<Rightarrow> (c, Some err)
      | None \<Rightarrow> (case setIntervals x (Periodics c) of
          (periodics, err) \<Rightarrow> (c\<lparr>Periodics := periodics\<rparr>, err)))))"

section \<open>Compiling the match structures\<close>

text \<open>\<open>strings.Join\<close>.\<close>

fun join :: "string \<Rightarrow> string list \<Rightarrow> string" where
  "join sep [] = []"
| "join sep [s] = s"
| "join sep (s # rest) = s @ sep @ join sep rest"

definition setBrancherRegexes :: "'re ext \<Rightarrow> 're Brancher \<Rightarrow> error + 're Brancher" where
  "setBrancherRegexes x br =
     (case (if length (Branches br) > 0
            then (case regexp_Compile x (join ''|'' (Branches br)) of
                    Inr r \<Rightarrow> Inr (br\<lparr>Brancher.re := Some r\<rparr>)
                  | Inl err \<Rightarrow> Inl (Errorf ''could not compile positive branch regex: %v'' [E err]))
            else Inr br) of
        Inl e \<Rightarrow> Inl e
      | Inr br1 \<Rightarrow>
          if length (SkipBranches br1) > 0
          then (case regexp_Compile x (join ''|'' (SkipBranches br1)) of
                  Inr r \<Rightarrow> Inr (br1\<lparr>reSkip := Some r\<rparr>)
                | Inl err \<Rightarrow> Inl (Errorf ''could not compile negative branch regex: %v'' [E err]))
          else Inr br1)"

definition setChangeRegexes :: "'re ext \<Rightarrow> 're RegexpChangeMatcher \<Rightarrow> error + 're RegexpChangeMatcher" where
  "setChangeRegexes x cm =
     (if RunIfChanged cm \<noteq> []
      then (case regexp_Compile x (RunIfChanged cm) of
              Inl err \<Rightarrow> Inl (Errorf ''could not compile run_if_changed regex: %v'' [E err])
            | Inr r \<Rightarrow> Inr (cm\<lparr>reChanges := Some r\<rparr>))
      else Inr cm)"

text \<open>
  \<open>SetPresubmitRegexes\<close> writes into the slice it is given; the model returns the slice
  as written when no entry fails, and the first error otherwise.
\<close>

fun SetPresubmitRegexes :: "'re ext \<Rightarrow> 're Presubmit list \<Rightarrow> error + 're Presubmit list" where
  "SetPresubmitRegexes x [] = Inr []"
| "SetPresubmitRegexes x (j # js) =
     (let name = Name (Presubmit.JobBase j) in
      case regexp_Compile x (Trigger j) of
        Inl err \<Rightarrow> Inl (Errorf ''could not compile trigger regex for %s: %v'' [S name, E err])
      | Inr r \<Rightarrow>
          if \<not> MatchString x r (RerunCommand j)
          then Inl (Errorf ''for job %s, rerun command \"%s\" does not match trigger \"%s\"''
                      [S name, S (RerunCommand j), S (Trigger j)])
          else (case setBrancherRegexes x (Presubmit.Brancher j) of
            Inl err \<Rightarrow> Inl (Errorf ''could not set branch regexes for %s: %v'' [S name, E err])
          | Inr b \<Rightarrow> (case setChangeRegexes x (Presubmit.RegexpChangeMatcher j) of
            Inl err \<Rightarrow> Inl (Errorf ''could not set change regexes for %s: %v'' [S name, E err])
          | Inr c \<Rightarrow> (case SetPresubmitRegexes x js of
            Inl e \<Rightarrow> Inl e
          | Inr js' \<Rightarrow>
              Inr (j\<lparr>Presubmit.re := Some r, Presubmit.Brancher := b,
                     Presubmit.RegexpChangeMatcher := c\<rparr> # js')))))"

fun SetPostsubmitRegexes :: "'re ext \<Rightarrow> 're Postsubmit list \<Rightarrow> error + 're Postsubmit list" where
  "SetPostsubmitRegexes x [] = Inr []"
| "SetPostsubmitRegexes x (j # js) =
     (let name = Name (Postsubmit.JobBase j) in
      case setBrancherRegexes x (Postsubmit.Brancher j) of
        Inl err \<Rightarrow> Inl (Errorf ''could not set branch regexes for %s: %v'' [S name, E err])
      | Inr b \<Rightarrow> (case setChangeRegexes x (Postsubmit.RegexpChangeMatcher j) of
        Inl err \<Rightarrow> Inl (Errorf ''could not set change regexes for %s: %v'' [S name, E err])
      | Inr c \<Rightarrow> (case SetPostsubmitRegexes x js of
        Inl e \<Rightarrow> Inl e
      | Inr js' \<Rightarrow>
          Inr (j\<lparr>Postsubmit.Brancher := b, Postsubmit.RegexpChangeMatcher := c\<rparr> # js'))))"

section \<open>Defaulting\<close>

definition defaultJobBase :: "'re ext \<Rightarrow> string \<Rightarrow> JobBase \<Rightarrow> JobBase" where
  "defaultJobBase x podNamespace base =
     (let base1 = (if Agent base = [] then base\<lparr>Agent := KubernetesAgent x\<rparr> else base);
          base2 = (if Namespace base1 = None \<or> Namespace base1 = Some []
                   then base1\<lparr>Namespace := Some podNamespace\<rparr> else base1)
      in if Cluster base2 = [] then base2\<lparr>Cluster := ''default''\<rparr> else base2)"

definition defaultPresubmitField :: "'re ext \<Rightarrow> string \<Rightarrow> 're Presubmit \<Rightarrow> 're Presubmit" where
  "defaultPresubmitField x podNamespace j =
     (let j1 = j\<lparr>Presubmit.JobBase := defaultJobBase x podNamespace (Presubmit.JobBase j)\<rparr>;
          name = Name (Presubmit.JobBase j1);
          j2 = (if Presubmit.Context j1 = [] then j1\<lparr>Presubmit.Context := name\<rparr> else j1)
      in if Trigger j2 = [] \<and> RerunCommand j2 = []
         then j2\<lparr>Trigger := DefaultTriggerFor name, RerunCommand := DefaultRerunCommandFor name\<rparr>
         else j2)"

definition defaultPresubmitFields :: "'re ext \<Rightarrow> string \<Rightarrow> 're Presubmit list \<Rightarrow> 're Presubmit list" where
  "defaultPresubmitFields x podNamespace js = map (defaultPresubmitField x podNamespace) js"

definition defaultPostsubmitField :: "'re ext \<Rightarrow> string \<Rightarrow> 're Postsubmit \<Rightarrow> 're Postsubmit" where
  "defaultPostsubmitField x podNamespace j =
     (let j1 = j\<lparr>Postsubmit.JobBase := defaultJobBase x podNamespace (Postsubmit.JobBase j)\<rparr>
      in if Postsubmit.Context j1 = []
         then j1\<lparr>Postsubmit.Context := Name (Postsubmit.JobBase j1)\<rparr> else j1)"

definition defaultPostsubmitFields :: "'re ext \<Rightarrow> string \<Rightarrow> 're Postsubmit list \<Rightarrow> 're Postsubmit list" where
  "defaultPostsubmitFields x podNamespace js = map (defaultPostsubmitField x podNamespace) js"

definition defaultPeriodicFields :: "'re ext \<Rightarrow> string \<Rightarrow> Periodic list \<Rightarrow> Periodic list" where
  "defaultPeriodicFields x podNamespace js =
     map (\<lambda>j. j\<lparr>Periodic.JobBase := defaultJobBase x podNamespace (Periodic.JobBase j)\<rparr>) js"

section \<open>Decoration defaults\<close>

text \<open>
  Modelled from the spec: \<open>DecorationConfig.ApplyDefault\<close>, which is declared outside this
  file. The spec: the default "is field-merged under the job's own explicit decoration
  config: for every field, a value explicitly set on the job wins; otherwise the resolved
  default's value is taken", and the merge is total. A nil config has no field set, so
  merging it with a default gives the default, and merging with a nil default changes
  nothing.
\<close>

definition fieldOf :: "DecorationConfig option \<Rightarrow> string \<Rightarrow> string option" where
  "fieldOf d f = (case d of None \<Rightarrow> None | Some d1 \<Rightarrow> map_of d1 f)"

fun ApplyDefault :: "DecorationConfig option \<Rightarrow> DecorationConfig option \<Rightarrow> DecorationConfig option" where
  "ApplyDefault None None = None"
| "ApplyDefault (Some d) None = Some d"
| "ApplyDefault None (Some def) = Some def"
| "ApplyDefault (Some d) (Some def) = Some (d @ filter (\<lambda>(f, v). map_of d f = None) def)"

text \<open>\<open>m[k]\<close> on a map of pointers: nil when the key is absent.\<close>

definition indexPtr :: "('v option) gomap \<Rightarrow> string \<Rightarrow> 'v option" where
  "indexPtr m k = (case map_of m k of None \<Rightarrow> None | Some v \<Rightarrow> v)"

text \<open>\<open>strings.Split(repo, "/")[0]\<close>: the text before the first \<open>/\<close>, the whole string when it has
  none.\<close>

definition orgOf :: "string \<Rightarrow> string" where
  "orgOf repo = takeWhile (\<lambda>c. c \<noteq> CHR ''/'') repo"

definition GetDefaultDecorationConfigs :: "Plank \<Rightarrow> string \<Rightarrow> DecorationConfig option" where
  "GetDefaultDecorationConfigs p repo =
     (let def = indexPtr (DefaultDecorationConfigs p) ''*'' in
      case map_of (DefaultDecorationConfigs p) repo of
        Some dcByRepo \<Rightarrow> ApplyDefault dcByRepo def
      | None \<Rightarrow>
          (case map_of (DefaultDecorationConfigs p) (orgOf repo) of
             Some dcByOrg \<Rightarrow> ApplyDefault dcByOrg def
           | None \<Rightarrow> def))"

definition decorated :: "Plank \<Rightarrow> string \<Rightarrow> JobBase \<Rightarrow> JobBase" where
  "decorated p repo base =
     base\<lparr>DecorationConfig := ApplyDefault (DecorationConfig base) (GetDefaultDecorationConfigs p repo)\<rparr>"

definition setPresubmitDecorationDefaults :: "('re, 'z) Config_scheme \<Rightarrow> 're Presubmit \<Rightarrow> string \<Rightarrow> 're Presubmit" where
  "setPresubmitDecorationDefaults c ps repo =
     (if Decorate (Presubmit.JobBase ps)
      then ps\<lparr>Presubmit.JobBase := decorated (Plank c) repo (Presubmit.JobBase ps)\<rparr>
      else ps)"

definition setPostsubmitDecorationDefaults :: "('re, 'z) Config_scheme \<Rightarrow> 're Postsubmit \<Rightarrow> string \<Rightarrow> 're Postsubmit" where
  "setPostsubmitDecorationDefaults c ps repo =
     (if Decorate (Postsubmit.JobBase ps)
      then ps\<lparr>Postsubmit.JobBase := decorated (Plank c) repo (Postsubmit.JobBase ps)\<rparr>
      else ps)"

definition setPeriodicDecorationDefaults :: "('re, 'z) Config_scheme \<Rightarrow> Periodic \<Rightarrow> Periodic" where
  "setPeriodicDecorationDefaults c ps =
     (if Decorate (Periodic.JobBase ps)
      then (let orgRepo = (case ExtraRefs (Periodic.JobBase ps) of
                             [] \<Rightarrow> []
                           | r # _ \<Rightarrow> Org r @ ''/'' @ Repo r)
            in ps\<lparr>Periodic.JobBase := decorated (Plank c) orgRepo (Periodic.JobBase ps)\<rparr>)
      else ps)"

section \<open>finalizeJobConfig\<close>

text \<open>
  \<open>resolvePresets\<close> changes the pod spec behind the pointer it is given; the model
  returns the spec as changed.
\<close>

fun resolvePresets ::
  "'re ext \<Rightarrow> string \<Rightarrow> string gomap \<Rightarrow> PodSpec option \<Rightarrow> Preset list \<Rightarrow> error + PodSpec option" where
  "resolvePresets x name labels spec [] = Inr spec"
| "resolvePresets x name labels spec (preset # rest) =
     (case spec of
        None \<Rightarrow> resolvePresets x name labels spec rest
      | Some sp \<Rightarrow>
          (case mergePreset x preset labels (Containers sp) (PodSpec.Volumes sp) of
             Inl err \<Rightarrow> Inl (Errorf ''job %s failed to merge presets for podspec: %v'' [S name, E err])
           | Inr (cs, vs) \<Rightarrow>
               resolvePresets x name labels (Some (sp\<lparr>Containers := cs, PodSpec.Volumes := vs\<rparr>)) rest))"

text \<open>The first loop of \<open>defaultPresubmits\<close> (and of \<open>defaultPostsubmits\<close>).\<close>

fun decoratePresubmits ::
  "'re ext \<Rightarrow> ('re, 'z) Config_scheme \<Rightarrow> string \<Rightarrow> 're Presubmit list \<Rightarrow> error + 're Presubmit list" where
  "decoratePresubmits x c repo [] = Inr []"
| "decoratePresubmits x c repo (ps # rest) =
     (let ps1 = setPresubmitDecorationDefaults c ps repo in
      case resolvePresets x (Name (Presubmit.JobBase ps)) (JobBase.Labels (Presubmit.JobBase ps))
             (Spec (Presubmit.JobBase ps)) (Presets c) of
        Inl e \<Rightarrow> Inl e
      | Inr spec' \<Rightarrow>
          (case decoratePresubmits x c repo rest of
             Inl e \<Rightarrow> Inl e
           | Inr rest' \<Rightarrow>
               Inr (ps1\<lparr>Presubmit.JobBase := (Presubmit.JobBase ps1)\<lparr>Spec := spec'\<rparr>\<rparr> # rest')))"

fun decoratePostsubmits ::
  "'re ext \<Rightarrow> ('re, 'z) Config_scheme \<Rightarrow> string \<Rightarrow> 're Postsubmit list \<Rightarrow> error + 're Postsubmit list" where
  "decoratePostsubmits x c repo [] = Inr []"
| "decoratePostsubmits x c repo (ps # rest) =
     (let ps1 = setPostsubmitDecorationDefaults c ps repo in
      case resolvePresets x (Name (Postsubmit.JobBase ps)) (JobBase.Labels (Postsubmit.JobBase ps))
             (Spec (Postsubmit.JobBase ps)) (Presets c) of
        Inl e \<Rightarrow> Inl e
      | Inr spec' \<Rightarrow>
          (case decoratePostsubmits x c repo rest of
             Inl e \<Rightarrow> Inl e
           | Inr rest' \<Rightarrow>
               Inr (ps1\<lparr>Postsubmit.JobBase := (Postsubmit.JobBase ps1)\<lparr>Spec := spec'\<rparr>\<rparr> # rest')))"

definition defaultPresubmits ::
  "'re ext \<Rightarrow> 're Presubmit list \<Rightarrow> ('re, 'z) Config_scheme \<Rightarrow> string \<Rightarrow> error + 're Presubmit list" where
  "defaultPresubmits x presubmits c repo =
     (case decoratePresubmits x c repo presubmits of
        Inl e \<Rightarrow> Inl e
      | Inr ps1 \<Rightarrow>
          (case SetPresubmitRegexes x (defaultPresubmitFields x (PodNamespace c) ps1) of
             Inl err \<Rightarrow> Inl (Errorf ''could not set regex: %v'' [E err])
           | Inr ps2 \<Rightarrow> Inr ps2))"

definition defaultPostsubmits ::
  "'re ext \<Rightarrow> 're Postsubmit list \<Rightarrow> ('re, 'z) Config_scheme \<Rightarrow> string \<Rightarrow> error + 're Postsubmit list" where
  "defaultPostsubmits x postsubmits c repo =
     (case decoratePostsubmits x c repo postsubmits of
        Inl e \<Rightarrow> Inl e
      | Inr ps1 \<Rightarrow>
          (case SetPostsubmitRegexes x (defaultPostsubmitFields x (PodNamespace c) ps1) of
             Inl err \<Rightarrow> Inl (Errorf ''could not set regex: %v'' [E err])
           | Inr ps2 \<Rightarrow> Inr ps2))"

fun presetPeriodics :: "'re ext \<Rightarrow> Preset list \<Rightarrow> Periodic list \<Rightarrow> error + Periodic list" where
  "presetPeriodics x presets [] = Inr []"
| "presetPeriodics x presets (p # rest) =
     (case resolvePresets x (Name (Periodic.JobBase p)) (JobBase.Labels (Periodic.JobBase p))
             (Spec (Periodic.JobBase p)) presets of
        Inl e \<Rightarrow> Inl e
      | Inr spec' \<Rightarrow>
          (case presetPeriodics x presets rest of
             Inl e \<Rightarrow> Inl e
           | Inr rest' \<Rightarrow> Inr (p\<lparr>Periodic.JobBase := (Periodic.JobBase p)\<lparr>Spec := spec'\<rparr>\<rparr> # rest')))"

definition defaultPeriodics :: "'re ext \<Rightarrow> Periodic list \<Rightarrow> ('re, 'z) Config_scheme \<Rightarrow> error + Periodic list" where
  "defaultPeriodics x periodics c =
     presetPeriodics x (Presets c) (defaultPeriodicFields x (PodNamespace c) periodics)"

definition decorationRequested :: "('re, 'z) JobConfig_scheme \<Rightarrow> bool" where
  "decorationRequested c =
     (list_ex (\<lambda>(repo, vs). list_ex (\<lambda>j. Decorate (Presubmit.JobBase j)) vs) (Presubmits c) \<or>
      list_ex (\<lambda>(repo, js). list_ex (\<lambda>j. Decorate (Postsubmit.JobBase j)) js) (Postsubmits c) \<or>
      list_ex (\<lambda>j. Decorate (Periodic.JobBase j)) (Periodics c))"

text \<open>
  The block of \<open>finalizeJobConfig\<close> guarded by \<open>decorationRequested\<close>: the deprecated
  single default is moved under the key \<open>*\<close>, the wildcard entry is required and validated,
  and the periodics get their decoration defaults.
\<close>

definition migrateDefault :: "'re Config \<Rightarrow> error + 're Config" where
  "migrateDefault c =
     (case DefaultDecorationConfig (Plank c) of
        None \<Rightarrow> Inr c
      | Some dc \<Rightarrow>
          if length (DefaultDecorationConfigs (Plank c)) > 0
          then Inl (Errorf ''both default_decoration_config and default_decoration_configs are specified'' [])
          else Inr (c\<lparr>Plank := (Plank c)\<lparr>DefaultDecorationConfigs := [(''*'', Some dc)]\<rparr>\<rparr>))"

definition decorationBlock :: "'re ext \<Rightarrow> 're Config \<Rightarrow> error + 're Config" where
  "decorationBlock x c =
     (case migrateDefault c of
        Inl e \<Rightarrow> Inl e
      | Inr c1 \<Rightarrow>
          if length (DefaultDecorationConfigs (Plank c1)) = 0
          then Inl (Errorf ''both default_decoration_config and default_decoration_configs['*'] are missing'' [])
          else (case map_of (DefaultDecorationConfigs (Plank c1)) ''*'' of
            None \<Rightarrow> Inl (Errorf ''default_decoration_configs['*'] is missing'' [])
          | Some star \<Rightarrow> (case Validate x star of
            Some err \<Rightarrow> Inl (Errorf ''decoration config validation error: %v'' [E err])
          | None \<Rightarrow> Inr (c1\<lparr>Periodics := map (setPeriodicDecorationDefaults c1) (Periodics c1)\<rparr>))))"

text \<open>
  The loops over \<open>c.Presubmits\<close> and \<open>c.Postsubmits\<close>: \<open>todo\<close> is what the \<open>range\<close> has
  still to visit. \<open>defaultPresubmits\<close> writes into the slice stored under \<open>repo\<close>.
\<close>

fun finalizePresubmits :: "'re ext \<Rightarrow> 're Config \<Rightarrow> ('re Presubmit list) gomap \<Rightarrow> error + 're Config" where
  "finalizePresubmits x c [] = Inr c"
| "finalizePresubmits x c ((repo, jobs) # todo) =
     (case defaultPresubmits x jobs c repo of
        Inl err \<Rightarrow> Inl err
      | Inr jobs' \<Rightarrow>
          finalizePresubmits x
            (c\<lparr>Presubmits := store (Presubmits c) repo jobs',
               AllRepos := List.insert repo (AllRepos c)\<rparr>) todo)"

fun finalizePostsubmits :: "'re ext \<Rightarrow> 're Config \<Rightarrow> ('re Postsubmit list) gomap \<Rightarrow> error + 're Config" where
  "finalizePostsubmits x c [] = Inr c"
| "finalizePostsubmits x c ((repo, jobs) # todo) =
     (case defaultPostsubmits x jobs c repo of
        Inl err \<Rightarrow> Inl err
      | Inr jobs' \<Rightarrow>
          finalizePostsubmits x
            (c\<lparr>Postsubmits := store (Postsubmits c) repo jobs',
               AllRepos := List.insert repo (AllRepos c)\<rparr>) todo)"

definition finalizeJobConfig :: "'re ext \<Rightarrow> 're Config \<Rightarrow> error + 're Config" where
  "finalizeJobConfig x c =
     (case (if decorationRequested c then decorationBlock x c else Inr c) of
        Inl e \<Rightarrow> Inl e
      | Inr c1 \<Rightarrow> (case finalizePresubmits x c1 (Presubmits c1) of
        Inl e \<Rightarrow> Inl e
      | Inr c2 \<Rightarrow> (case finalizePostsubmits x c2 (Postsubmits c2) of
        Inl e \<Rightarrow> Inl e
      | Inr c3 \<Rightarrow> (case defaultPeriodics x (Periodics c3) c3 of
        Inl e \<Rightarrow> Inl e
      | Inr periodics \<Rightarrow> Inr (c3\<lparr>Periodics := periodics\<rparr>)))))"

section \<open>Load\<close>

text \<open>
  A call either returns or panics with a value. Every panic the runtime raises carries a
  value that is not nil, and nothing here calls \<open>panic(nil)\<close>, so \<open>recover()\<close> answers
  nil only when there was no panic.
\<close>

datatype 'a outcome = Returns 'a | Panics string

text \<open>
  The body of \<open>Load\<close>, without its deferred function. \<open>loadConfig\<close> reads files, so its
  outcome is an argument: an error, or the config it built. The three methods work on
  \<open>*Config\<close>: each returns the config as it leaves it, and its error.
\<close>

definition LoadBody ::
  "(error + 're Config) outcome \<Rightarrow>
   ('re Config \<Rightarrow> ('re Config \<times> error option) outcome) \<Rightarrow>
   ('re Config \<Rightarrow> ('re Config \<times> error option) outcome) \<Rightarrow>
   ('re Config \<Rightarrow> ('re Config \<times> error option) outcome) \<Rightarrow>
   ('re Config option \<times> error option) outcome" where
  "LoadBody loaded finalize validateComponent validateJob =
     (case loaded of
        Panics r \<Rightarrow> Panics r
      | Returns (Inl err) \<Rightarrow> Returns (None, Some err)
      | Returns (Inr c) \<Rightarrow> (case finalize c of
        Panics r \<Rightarrow> Panics r
      | Returns (c1, Some err) \<Rightarrow> Returns (None, Some err)
      | Returns (c1, None) \<Rightarrow> (case validateComponent c1 of
        Panics r \<Rightarrow> Panics r
      | Returns (c2, Some err) \<Rightarrow> Returns (None, Some err)
      | Returns (c2, None) \<Rightarrow> (case validateJob c2 of
        Panics r \<Rightarrow> Panics r
      | Returns (c3, Some err) \<Rightarrow> Returns (None, Some err)
      | Returns (c3, None) \<Rightarrow> Returns (Some c3, None)))))"

text \<open>The deferred function: a panic becomes the results \<open>nil\<close> and an error.\<close>

definition recovered :: "('re Config option \<times> error option) outcome \<Rightarrow> ('re Config option \<times> error option) outcome" where
  "recovered body =
     (case body of
        Panics r \<Rightarrow> Returns (None, Some (Errorf ''panic loading config: %v'' [S r]))
      | Returns res \<Rightarrow> Returns res)"

definition LoadWith ::
  "(error + 're Config) outcome \<Rightarrow>
   ('re Config \<Rightarrow> ('re Config \<times> error option) outcome) \<Rightarrow>
   ('re Config \<Rightarrow> ('re Config \<times> error option) outcome) \<Rightarrow>
   ('re Config \<Rightarrow> ('re Config \<times> error option) outcome) \<Rightarrow>
   ('re Config option \<times> error option) outcome" where
  "LoadWith loaded finalize validateComponent validateJob =
     recovered (LoadBody loaded finalize validateComponent validateJob)"

text \<open>
  \<open>Load\<close> with the two stages modelled above. \<open>validateComponentConfig\<close> parses URLs and
  templates with the standard library, so it stays an argument; what it writes (the default
  report template of the Slack reporter) is outside the fields of \<open>Config\<close> kept here, so
  it gives an error or none and leaves the config as it is.
\<close>

definition Load ::
  "'re ext \<Rightarrow> (error + 're Config) outcome \<Rightarrow> ('re Config \<Rightarrow> error option outcome) \<Rightarrow>
   ('re Config option \<times> error option) outcome" where
  "Load x loaded validateComponentConfig =
     LoadWith loaded
       (\<lambda>c. Returns (case finalizeJobConfig x c of Inl err \<Rightarrow> (c, Some err) | Inr c' \<Rightarrow> (c', None)))
       (\<lambda>c. case validateComponentConfig c of Panics r \<Rightarrow> Panics r | Returns err \<Rightarrow> Returns (c, err))
       (\<lambda>c. Returns (validateJobConfig x c))"

text \<open>
  Merging three fragments, associated to the left and to the right; an error of the
  first merge is the error of the whole.
\<close>

definition mergeLeft :: "'re JobConfig \<Rightarrow> 're JobConfig \<Rightarrow> 're JobConfig \<Rightarrow> error + 're JobConfig" where
  "mergeLeft a b c = (case mergeJobConfigs a b of Inl e \<Rightarrow> Inl e | Inr ab \<Rightarrow> mergeJobConfigs ab c)"

definition mergeRight :: "'re JobConfig \<Rightarrow> 're JobConfig \<Rightarrow> 're JobConfig \<Rightarrow> error + 're JobConfig" where
  "mergeRight a b c = (case mergeJobConfigs b c of Inl e \<Rightarrow> Inl e | Inr bc \<Rightarrow> mergeJobConfigs a bc)"

text \<open>Two job configs that hold the same Go values: the maps compared as maps.\<close>

definition sameJobConfig :: "'re JobConfig \<Rightarrow> 're JobConfig \<Rightarrow> bool" where
  "sameJobConfig x y =
     (Presets x = Presets y \<and> map_of (Presubmits x) = map_of (Presubmits y) \<and>
      map_of (Postsubmits x) = map_of (Postsubmits y) \<and> Periodics x = Periodics y \<and>
      AllRepos x = AllRepos y)"

section \<open>Example values\<close>

text \<open>The zero value of each struct, with the name set.\<close>

definition jobBase0 :: "string \<Rightarrow> JobBase" where
  "jobBase0 n = \<lparr> Name = n, Labels = [], MaxConcurrency = 0, Agent = [], Cluster = [],
     Namespace = None, ErrorOnEviction = False, SourcePath = [], Spec = None,
     RerunAuthConfig = None, Decorate = False, DecorationConfig = None, ExtraRefs = [] \<rparr>"

definition brancher0 :: "'re Brancher" where
  "brancher0 = \<lparr> SkipBranches = [], Branches = [], re = None, reSkip = None \<rparr>"

definition presubmit0 :: "string \<Rightarrow> 're Presubmit" where
  "presubmit0 n = \<lparr> Presubmit.JobBase = jobBase0 n, AlwaysRun = False, Context = [], SkipReport = False,
     Trigger = [], RerunCommand = [], Brancher = brancher0,
     RegexpChangeMatcher = \<lparr> RunIfChanged = [], reChanges = None \<rparr>, re = None \<rparr>"

definition postsubmit0 :: "string \<Rightarrow> 're Postsubmit" where
  "postsubmit0 n = \<lparr> Postsubmit.JobBase = jobBase0 n, Context = [], SkipReport = False,
     Brancher = brancher0, RegexpChangeMatcher = \<lparr> RunIfChanged = [], reChanges = None \<rparr> \<rparr>"

definition periodic0 :: "string \<Rightarrow> Periodic" where
  "periodic0 n = \<lparr> JobBase = jobBase0 n, Interval = [], Cron = [], interval = 0 \<rparr>"

definition fragment :: "string \<Rightarrow> string \<Rightarrow> regex JobConfig" where
  "fragment repo n = \<lparr> Presets = [], Presubmits = [(repo, [presubmit0 n])],
     Postsubmits = [(repo, [postsubmit0 n])], Periodics = [periodic0 n], AllRepos = [] \<rparr>"

text \<open>
  An instance of the parameters, to run the model on concrete inputs: the regexp model
  above, the agent names, and stand-ins for the rest. \<open>exampleParseDuration\<close> knows two
  durations; \<open>exampleIntersects\<close> is for branchers that list plain branch names and skip
  none, which intersect when they share a name; labels and decoration configs are all
  valid, and presets change nothing.
\<close>

definition exampleParseDuration :: "string \<Rightarrow> error + int" where
  "exampleParseDuration s =
     (if s = ''1h'' then Inr 3600000000000
      else if s = ''30m'' then Inr 1800000000000
      else Inl (Errorf ''time: invalid duration %q'' [S s]))"

definition exampleIntersects :: "'re Brancher \<Rightarrow> 're Brancher \<Rightarrow> bool" where
  "exampleIntersects a b = list_ex (\<lambda>n. n \<in> set (Branches b)) (Branches a)"

definition exampleExt :: "regex ext" where
  "exampleExt = \<lparr> KubernetesAgent = ''kubernetes'', KnativeBuildAgent = ''knative-build'',
     JenkinsAgent = ''jenkins'', TektonAgent = ''tekton-pipeline'',
     regexp_Compile = goCompile, MatchString = goMatchString,
     ParseDuration = exampleParseDuration,
     IsQualifiedName = (\<lambda>s. []), IsValidLabelValue = (\<lambda>s. []),
     Validate = (\<lambda>d. None), Intersects = exampleIntersects,
     mergePreset = (\<lambda>preset labels cs vs. Inr (cs, vs)) \<rparr>"



definition exampleJob :: "string \<Rightarrow> JobBase" where
  "exampleJob n = (jobBase0 n)\<lparr>Agent := ''jenkins'', Namespace := Some ''default''\<rparr>"

definition examplePresubmit :: "string \<Rightarrow> string list \<Rightarrow> regex Presubmit" where
  "examplePresubmit n branches =
     (presubmit0 n)\<lparr>Presubmit.JobBase := exampleJob n, Presubmit.Context := n,
        Trigger := ''/go'', RerunCommand := ''/go'',
        Presubmit.Brancher := brancher0\<lparr>Branches := branches\<rparr>\<rparr>"

definition examplePostsubmit :: "string \<Rightarrow> string list \<Rightarrow> regex Postsubmit" where
  "examplePostsubmit n branches =
     (postsubmit0 n)\<lparr>Postsubmit.JobBase := exampleJob n, Postsubmit.Context := n,
        Postsubmit.Brancher := brancher0\<lparr>Branches := branches\<rparr>\<rparr>"

definition exampleConfig ::
  "(regex Presubmit list) gomap \<Rightarrow> (regex Postsubmit list) gomap \<Rightarrow> Periodic list \<Rightarrow> regex Config" where
  "exampleConfig pre post per = \<lparr> Presets = [], Presubmits = pre, Postsubmits = post,
     Periodics = per, AllRepos = [],
     Plank = \<lparr>DefaultDecorationConfig = None, DefaultDecorationConfigs = []\<rparr>,
     PodNamespace = ''default'' \<rparr>"


definition twoPostsubmits :: "regex Postsubmit list" where
  "twoPostsubmits = [examplePostsubmit ''publish'' [''main''], examplePostsubmit ''publish'' [''main'']]"



definition duplicatePostConfig :: "regex Config" where
  "duplicatePostConfig = exampleConfig [] [(''org/repo'', twoPostsubmits)] []"


text \<open>
  A Jenkins job without a pod spec whose rerun policy allows anyone and also lists a user,
  as the only periodic of a config.
\<close>

definition ambiguousJob :: JobBase where
  "ambiguousJob = (jobBase0 ''nightly'')\<lparr>Agent := ''jenkins'', Namespace := Some ''default'',
     RerunAuthConfig := Some \<lparr>AllowAnyone = True, GitHubUsers = [''alice''],
       GitHubTeamIDs = [], GitHubTeamSlugs = []\<rparr>\<rparr>"

definition ambiguousConfig :: "regex Config" where
  "ambiguousConfig = exampleConfig [] []
     [(periodic0 ''nightly'')\<lparr>Periodic.JobBase := ambiguousJob, Cron := ''0 * * * *''\<rparr>]"

text \<open>What the last loop of \<open>validateJobConfig\<close> writes into one periodic when it accepts it.\<close>

definition withInterval :: "'re ext \<Rightarrow> Periodic \<Rightarrow> Periodic" where
  "withInterval x p =
     (if Interval p = [] then p
      else (case ParseDuration x (Interval p) of Inl err \<Rightarrow> p | Inr d \<Rightarrow> p\<lparr>interval := d\<rparr>))"

text \<open>A periodic the loop accepts: exactly one of cron and interval, and an interval that parses.\<close>

definition scheduleOk :: "'re ext \<Rightarrow> Periodic \<Rightarrow> bool" where
  "scheduleOk x p =
     ((Cron p = []) \<noteq> (Interval p = []) \<and>
      (Cron p = [] \<longrightarrow> (\<exists>d. ParseDuration x (Interval p) = Inr d)))"

definition examplePeriodic :: "string \<Rightarrow> string \<Rightarrow> string \<Rightarrow> Periodic" where
  "examplePeriodic n cron every =
     (periodic0 n)\<lparr>Periodic.JobBase := exampleJob n, Cron := cron, Interval := every\<rparr>"

definition scheduledConfig :: "regex Config" where
  "scheduledConfig = exampleConfig [] []
     [examplePeriodic ''nightly'' ''0 3 * * *'' [], examplePeriodic ''hourly'' [] ''1h'']"

definition clashingConfig :: "regex Config" where
  "clashingConfig = exampleConfig [] []
     [examplePeriodic ''hourly'' [] ''1h'', examplePeriodic ''both'' ''0 * * * *'' ''1h'']"

text \<open>Two periodics that both set cron and interval.\<close>

definition twoBad :: "regex Config" where
  "twoBad = exampleConfig [] []
     [examplePeriodic ''first'' ''0 * * * *'' ''1h'', examplePeriodic ''second'' ''0 * * * *'' ''1h'']"

text \<open>
  Three periodics: the first and the third set an interval that parses, the second sets
  neither cron nor interval.
\<close>

definition partialConfig :: "regex Config" where
  "partialConfig = exampleConfig [] []
     [examplePeriodic ''hourly'' [] ''1h'', examplePeriodic ''empty'' [] [], examplePeriodic ''half'' [] ''30m'']"

text \<open>A \<open>validateComponentConfig\<close> that panics, whatever the config.\<close>

definition panicsAtComponent :: "regex Config \<Rightarrow> error option outcome" where
  "panicsAtComponent c = Panics ''runtime error: invalid memory address or nil pointer dereference''"




text \<open>
  A stand-in for \<open>DecorationConfig.Validate\<close>, which is declared outside this file, that
  refuses a config without utility images; and the parameters with it.
\<close>

definition strictValidate :: "DecorationConfig option \<Rightarrow> error option" where
  "strictValidate d =
     (if fieldOf d ''utility_images'' = None then Some (Errorf ''utility image config is not specified'' [])
      else None)"

definition strictExt :: "regex ext" where
  "strictExt = exampleExt\<lparr>Validate := strictValidate\<rparr>"

text \<open>A periodic that asks for decoration, as the only job of a config with the given \<open>Plank\<close>.\<close>

definition decoratedJob :: JobBase where
  "decoratedJob = (exampleJob ''nightly'')\<lparr>Agent := ''knative-build'', Decorate := True\<rparr>"

definition decoratedConfig :: "Plank \<Rightarrow> regex Config" where
  "decoratedConfig pl =
     (exampleConfig [] [] [(examplePeriodic ''nightly'' ''0 3 * * *'' [])\<lparr>Periodic.JobBase := decoratedJob\<rparr>])
       \<lparr>Plank := pl\<rparr>"

definition noDefaults :: Plank where
  "noDefaults = \<lparr>DefaultDecorationConfig = None, DefaultDecorationConfigs = []\<rparr>"

definition orgDefaultsOnly :: Plank where
  "orgDefaultsOnly = \<lparr>DefaultDecorationConfig = None,
     DefaultDecorationConfigs = [(''org'', Some [(''timeout'', ''2h'')])]\<rparr>"

definition wildcardDefaults :: Plank where
  "wildcardDefaults = \<lparr>DefaultDecorationConfig = None,
     DefaultDecorationConfigs = [(''*'', Some [(''timeout'', ''2h'')])]\<rparr>"




section \<open>Properties of mergeJobConfigs\<close>

lemma map_of_store: "map_of (store m k v) = (map_of m)(k \<mapsto> v)"
  by (induction m) (auto simp: fun_eq_iff)

lemma keys_store: "fst ` set (store m k v) = insert k (fst ` set m)"
  by (induction m) auto

lemma store_keys_list:
  "map fst (store m k v) = (if k \<in> fst ` set m then map fst m else map fst m @ [k])"
  by (induction m) auto

lemma gomap_ok_store: "gomap_ok m \<Longrightarrow> gomap_ok (store m k v)"
  by (simp add: gomap_ok_def store_keys_list)

lemma index_store: "index (store m k v) k' = (if k' = k then v else index m k')"
  by (simp add: index_def map_of_store)

lemma index_absent: "k \<notin> fst ` set m \<Longrightarrow> index m k = []"
  by (simp add: index_def map_of_eq_None_iff[THEN iffD2])

lemma copyJobs_Cons: "copyJobs c ((r, js) # a) = copyJobs (store c r js) a"
  by (simp add: copyJobs_def)

lemma appendJobs_Cons: "appendJobs c ((r, js) # b) = appendJobs (store c r (index c r @ js)) b"
  by (simp add: appendJobs_def)

lemma map_of_copyJobs: "gomap_ok a \<Longrightarrow> map_of (copyJobs c a) = map_of c ++ map_of a"
proof (induction a arbitrary: c)
  case Nil
  then show ?case by (simp add: copyJobs_def)
next
  case (Cons p a)
  obtain r js where p: "p = (r, js)" by (cases p)
  from Cons.prems have ok: "gomap_ok a" and fresh: "r \<notin> fst ` set a"
    by (auto simp: gomap_ok_def p)
  have "map_of a r = None" using fresh by (simp add: map_of_eq_None_iff)
  then show ?case
    using Cons.IH[OF ok, of "store c r js"]
    by (auto simp: p copyJobs_Cons map_of_store fun_eq_iff map_add_def split: option.splits)
qed

lemma keys_copyJobs: "fst ` set (copyJobs c a) = fst ` set c \<union> fst ` set a"
proof (induction a arbitrary: c)
  case Nil
  then show ?case by (simp add: copyJobs_def)
next
  case (Cons p a)
  obtain r js where p: "p = (r, js)" by (cases p)
  show ?case using Cons.IH[of "store c r js"]
    by (simp add: p copyJobs_Cons keys_store)
qed

lemma keys_appendJobs: "fst ` set (appendJobs c b) = fst ` set c \<union> fst ` set b"
proof (induction b arbitrary: c)
  case Nil
  then show ?case by (simp add: appendJobs_def)
next
  case (Cons p b)
  obtain r js where p: "p = (r, js)" by (cases p)
  show ?case using Cons.IH[of "store c r (index c r @ js)"]
    by (auto simp: p appendJobs_Cons keys_store)
qed

lemma gomap_ok_copyJobs: "gomap_ok c \<Longrightarrow> gomap_ok (copyJobs c a)"
  by (induction a arbitrary: c) (auto simp: copyJobs_def gomap_ok_store)

lemma gomap_ok_appendJobs: "gomap_ok c \<Longrightarrow> gomap_ok (appendJobs c b)"
proof (induction b arbitrary: c)
  case Nil
  then show ?case by (simp add: appendJobs_def)
next
  case (Cons p b)
  obtain r js where p: "p = (r, js)" by (cases p)
  show ?case using Cons.IH[of "store c r (index c r @ js)"] Cons.prems
    by (simp add: p appendJobs_Cons gomap_ok_store)
qed

lemma index_appendJobs:
  "gomap_ok b \<Longrightarrow> index (appendJobs c b) k = index c k @ index b k"
proof (induction b arbitrary: c)
  case Nil
  then show ?case by (simp add: appendJobs_def index_def)
next
  case (Cons p b)
  obtain r js where p: "p = (r, js)" by (cases p)
  from Cons.prems have ok: "gomap_ok b" and fresh: "r \<notin> fst ` set b"
    by (auto simp: gomap_ok_def p)
  have ib: "index b r = []" using fresh by (rule index_absent)
  have hd: "index ((r, js) # b) k = (if k = r then js else index b k)"
    by (auto simp: index_def)
  show ?case
    using Cons.IH[OF ok, of "store c r (index c r @ js)"]
    by (simp add: p appendJobs_Cons index_store hd ib)
qed

lemma index_copyJobs_empty: "gomap_ok a \<Longrightarrow> index (copyJobs [] a) k = index a k"
  by (simp add: index_def map_of_copyJobs)

lemma index_merged:
  "gomap_ok a \<Longrightarrow> gomap_ok b \<Longrightarrow>
   index (appendJobs (copyJobs [] a) b) k = index a k @ index b k"
  by (simp add: index_appendJobs index_copyJobs_empty)


lemma map_of_appendJobs:
  "gomap_ok b \<Longrightarrow>
   map_of (appendJobs c b) k =
     (case map_of b k of None \<Rightarrow> map_of c k | Some js \<Rightarrow> Some (index c k @ js))"
proof (induction b arbitrary: c)
  case Nil
  then show ?case by (simp add: appendJobs_def)
next
  case (Cons p b)
  obtain r js where p: "p = (r, js)" by (cases p)
  from Cons.prems have ok: "gomap_ok b" and fresh: "r \<notin> fst ` set b"
    by (auto simp: gomap_ok_def p)
  have none: "map_of b r = None" using fresh by (simp add: map_of_eq_None_iff)
  show ?case
    using Cons.IH[OF ok, of "store c r (index c r @ js)"] none
    by (auto simp: p appendJobs_Cons map_of_store index_store split: option.splits)
qed

lemma map_of_merged:
  "gomap_ok a \<Longrightarrow> gomap_ok b \<Longrightarrow>
   map_of (appendJobs (copyJobs [] a) b) k =
     (case map_of b k of None \<Rightarrow> map_of a k | Some js \<Rightarrow> Some (index a k @ js))"
  by (simp add: map_of_appendJobs map_of_copyJobs index_copyJobs_empty split: option.splits)

lemma gomap_ok_merged: "gomap_ok (appendJobs (copyJobs [] a) b)"
  by (rule gomap_ok_appendJobs, rule gomap_ok_copyJobs) (simp add: gomap_ok_def)

lemma merged_assoc:
  assumes "gomap_ok a" "gomap_ok b" "gomap_ok c"
  shows "map_of (appendJobs (copyJobs [] (appendJobs (copyJobs [] a) b)) c) =
         map_of (appendJobs (copyJobs [] a) (appendJobs (copyJobs [] b) c))"
proof
  fix k
  show "map_of (appendJobs (copyJobs [] (appendJobs (copyJobs [] a) b)) c) k =
        map_of (appendJobs (copyJobs [] a) (appendJobs (copyJobs [] b) c)) k"
    using assms
    by (simp add: map_of_merged gomap_ok_merged index_merged split: option.splits)
qed

definition pairsOf :: "(string \<times> string) list \<Rightarrow> string list" where
  "pairsOf ls = map (\<lambda>(label, val). label @ '':'' @ val) ls"

lemma checkLabels_Inr:
  "(checkLabels seen ls = Inr s) =
   (distinct (pairsOf ls) \<and> set (pairsOf ls) \<inter> set seen = {} \<and> s = rev (pairsOf ls) @ seen)"
  by (induction seen ls arbitrary: s rule: checkLabels.induct)
     (auto simp: pairsOf_def Let_def)

lemma checkPresets_Inr:
  "(checkPresets seen ps = Inr s) =
   (distinct (concat (map (\<lambda>p. pairsOf (Preset.Labels p)) ps)) \<and>
    set (concat (map (\<lambda>p. pairsOf (Preset.Labels p)) ps)) \<inter> set seen = {} \<and>
    s = rev (concat (map (\<lambda>p. pairsOf (Preset.Labels p)) ps)) @ seen)"
proof (induction ps arbitrary: seen s)
  case Nil
  then show ?case by auto
next
  case (Cons p ps)
  show ?case
  proof (cases "checkLabels seen (Preset.Labels p)")
    case (Inl e)
    then have "\<not> (distinct (pairsOf (Preset.Labels p)) \<and> set (pairsOf (Preset.Labels p)) \<inter> set seen = {})"
      using checkLabels_Inr[of seen "Preset.Labels p"] by auto
    then show ?thesis using Inl by auto
  next
    case (Inr s1)
    then have s1: "distinct (pairsOf (Preset.Labels p))" "set (pairsOf (Preset.Labels p)) \<inter> set seen = {}"
      "s1 = rev (pairsOf (Preset.Labels p)) @ seen"
      by (simp_all add: checkLabels_Inr)
    show ?thesis using Inr s1 Cons.IH[of s1 s] by auto
  qed
qed

lemma checkPresets_ok:
  "(\<exists>s. checkPresets [] ps = Inr s) = distinct (concat (map (\<lambda>p. pairsOf (Preset.Labels p)) ps))"
  by (simp add: checkPresets_Inr)


definition presetPairs :: "Preset list \<Rightarrow> string list" where
  "presetPairs ps = concat (map (\<lambda>p. pairsOf (Preset.Labels p)) ps)"

lemma checkPresets_ok': "(\<exists>s. checkPresets [] ps = Inr s) = distinct (presetPairs ps)"
  by (simp add: checkPresets_Inr presetPairs_def)

lemma presetPairs_append: "presetPairs (xs @ ys) = presetPairs xs @ presetPairs ys"
  by (simp add: presetPairs_def)

lemma mergeJobConfigs_Inr:
  "(mergeJobConfigs a b = Inr ab) =
   (distinct (presetPairs (Presets a @ Presets b)) \<and>
    ab = \<lparr> Presets = Presets a @ Presets b,
           Presubmits = appendJobs (copyJobs [] (Presubmits a)) (Presubmits b),
           Postsubmits = appendJobs (copyJobs [] (Postsubmits a)) (Postsubmits b),
           Periodics = Periodics a @ Periodics b,
           AllRepos = [] \<rparr>)"
proof (cases "checkPresets [] (Presets a @ Presets b)")
  case (Inl e)
  then have "\<not> (\<exists>s. checkPresets [] (Presets a @ Presets b) = Inr s)" by simp
  then have "\<not> distinct (presetPairs (Presets a @ Presets b))"
    unfolding checkPresets_ok' .
  then show ?thesis using Inl by (simp add: mergeJobConfigs_def Let_def)
next
  case (Inr s)
  then have "\<exists>s. checkPresets [] (Presets a @ Presets b) = Inr s" by blast
  then have "distinct (presetPairs (Presets a @ Presets b))"
    unfolding checkPresets_ok' .
  then show ?thesis using Inr by (auto simp: mergeJobConfigs_def Let_def)
qed

lemma mergeJobConfigs_isl:
  "isl (mergeJobConfigs a b) =
   (\<not> distinct (presetPairs (Presets a @ Presets b)))"
  using mergeJobConfigs_Inr[of a b] by (cases "mergeJobConfigs a b") auto

lemma mergeLeft_isl:
  "isl (mergeLeft a b c) =
   (\<not> distinct (presetPairs (Presets a @ Presets b @ Presets c)))"
proof (cases "mergeJobConfigs a b")
  case (Inl e)
  then have "\<not> distinct (presetPairs (Presets a @ Presets b))"
    using mergeJobConfigs_isl[of a b] by simp
  then show ?thesis using Inl by (auto simp: mergeLeft_def presetPairs_append)
next
  case (Inr ab)
  then have "Presets ab = Presets a @ Presets b" by (simp add: mergeJobConfigs_Inr)
  moreover have "\<not> isl (mergeJobConfigs a b)" using Inr by simp
  ultimately show ?thesis using Inr
    by (auto simp: mergeLeft_def mergeJobConfigs_isl presetPairs_append)
qed

lemma mergeRight_isl:
  "isl (mergeRight a b c) =
   (\<not> distinct (presetPairs (Presets a @ Presets b @ Presets c)))"
proof (cases "mergeJobConfigs b c")
  case (Inl e)
  then have "\<not> distinct (presetPairs (Presets b @ Presets c))"
    using mergeJobConfigs_isl[of b c] by simp
  then show ?thesis using Inl by (auto simp: mergeRight_def presetPairs_append)
next
  case (Inr bc)
  then have "Presets bc = Presets b @ Presets c" by (simp add: mergeJobConfigs_Inr)
  moreover have "\<not> isl (mergeJobConfigs b c)" using Inr by simp
  ultimately show ?thesis using Inr
    by (auto simp: mergeRight_def mergeJobConfigs_isl presetPairs_append)
qed

lemma merge_assoc_same:
  assumes ok: "gomap_ok (Presubmits a)" "gomap_ok (Postsubmits a)"
      "gomap_ok (Presubmits b)" "gomap_ok (Postsubmits b)"
      "gomap_ok (Presubmits c)" "gomap_ok (Postsubmits c)"
    and l: "mergeLeft a b c = Inr x" and r: "mergeRight a b c = Inr y"
  shows "sameJobConfig x y"
proof -
  from l obtain ab where ab: "mergeJobConfigs a b = Inr ab" "mergeJobConfigs ab c = Inr x"
    by (auto simp: mergeLeft_def split: sum.splits)
  from r obtain bc where bc: "mergeJobConfigs b c = Inr bc" "mergeJobConfigs a bc = Inr y"
    by (auto simp: mergeRight_def split: sum.splits)
  show ?thesis
    using ab bc ok
    by (simp add: mergeJobConfigs_Inr sameJobConfig_def merged_assoc)
qed

text \<open>
  C7. When merging fragment \<open>a\<close> then \<open>b\<close> returns no error, the merged config
  holds, under every repository key, \<open>a\<close>'s presubmit list followed by \<open>b\<close>'s, and
  likewise for postsubmits; its keys are those of \<open>a\<close> and \<open>b\<close>; its periodics are
  \<open>a\<close>'s followed by \<open>b\<close>'s. Merging three fragments fails for one association
  exactly when it fails for the other, and when both succeed they give the same config.
\<close>

theorem mergeJobConfigs_concat:
  assumes "gomap_ok (Presubmits a)" "gomap_ok (Postsubmits a)"
      "gomap_ok (Presubmits b)" "gomap_ok (Postsubmits b)"
      "gomap_ok (Presubmits c)" "gomap_ok (Postsubmits c)"
  shows "(\<forall>ab. mergeJobConfigs a b = Inr ab \<longrightarrow>
            (\<forall>repo. index (Presubmits ab) repo = index (Presubmits a) repo @ index (Presubmits b) repo \<and>
                    index (Postsubmits ab) repo = index (Postsubmits a) repo @ index (Postsubmits b) repo) \<and>
            fst ` set (Presubmits ab) = fst ` set (Presubmits a) \<union> fst ` set (Presubmits b) \<and>
            fst ` set (Postsubmits ab) = fst ` set (Postsubmits a) \<union> fst ` set (Postsubmits b) \<and>
            Periodics ab = Periodics a @ Periodics b) \<and>
         isl (mergeLeft a b c) = isl (mergeRight a b c) \<and>
         (\<forall>x y. mergeLeft a b c = Inr x \<and> mergeRight a b c = Inr y \<longrightarrow> sameJobConfig x y)"
proof (intro conjI allI impI)
  fix ab repo
  assume m: "mergeJobConfigs a b = Inr ab"
  show "index (Presubmits ab) repo = index (Presubmits a) repo @ index (Presubmits b) repo"
    using m assms by (simp add: mergeJobConfigs_Inr index_merged)
  show "index (Postsubmits ab) repo = index (Postsubmits a) repo @ index (Postsubmits b) repo"
    using m assms by (simp add: mergeJobConfigs_Inr index_merged)
next
  fix ab
  assume m: "mergeJobConfigs a b = Inr ab"
  show "fst ` set (Presubmits ab) = fst ` set (Presubmits a) \<union> fst ` set (Presubmits b)"
    using m by (simp add: mergeJobConfigs_Inr keys_appendJobs keys_copyJobs)
  show "fst ` set (Postsubmits ab) = fst ` set (Postsubmits a) \<union> fst ` set (Postsubmits b)"
    using m by (simp add: mergeJobConfigs_Inr keys_appendJobs keys_copyJobs)
  show "Periodics ab = Periodics a @ Periodics b"
    using m by (simp add: mergeJobConfigs_Inr)
next
  show "isl (mergeLeft a b c) = isl (mergeRight a b c)"
    by (simp add: mergeLeft_isl mergeRight_isl)
next
  fix x y
  assume "mergeLeft a b c = Inr x \<and> mergeRight a b c = Inr y"
  then show "sameJobConfig x y" using assms by (auto intro: merge_assoc_same)
qed

theorem mergeJobConfigs_concat_witness:
  "gomap_ok (Presubmits (fragment ''o/r'' ''a'')) \<and> gomap_ok (Postsubmits (fragment ''o/r'' ''a'')) \<and>
   gomap_ok (Presubmits (fragment ''o/r'' ''b'')) \<and> gomap_ok (Postsubmits (fragment ''o/r'' ''b'')) \<and>
   gomap_ok (Presubmits (fragment ''o/q'' ''c'')) \<and> gomap_ok (Postsubmits (fragment ''o/q'' ''c'')) \<and>
   (\<exists>ab. mergeJobConfigs (fragment ''o/r'' ''a'') (fragment ''o/r'' ''b'') = Inr ab \<and>
      index (Presubmits ab) ''o/r'' = [presubmit0 ''a'', presubmit0 ''b''] \<and>
      index (Postsubmits ab) ''o/r'' = [postsubmit0 ''a'', postsubmit0 ''b''] \<and>
      Periodics ab = [periodic0 ''a'', periodic0 ''b'']) \<and>
   (\<exists>x y. mergeLeft (fragment ''o/r'' ''a'') (fragment ''o/r'' ''b'') (fragment ''o/q'' ''c'') = Inr x \<and>
      mergeRight (fragment ''o/r'' ''a'') (fragment ''o/r'' ''b'') (fragment ''o/q'' ''c'') = Inr y \<and>
      sameJobConfig x y)"
proof -
  let ?a = "fragment ''o/r'' ''a'' :: regex JobConfig"
  let ?b = "fragment ''o/r'' ''b'' :: regex JobConfig"
  let ?c = "fragment ''o/q'' ''c'' :: regex JobConfig"
  have ok: "gomap_ok (Presubmits ?a)" "gomap_ok (Postsubmits ?a)"
      "gomap_ok (Presubmits ?b)" "gomap_ok (Postsubmits ?b)"
      "gomap_ok (Presubmits ?c)" "gomap_ok (Postsubmits ?c)"
    by (simp_all add: fragment_def gomap_ok_def)
  have m: "\<exists>ab. mergeJobConfigs ?a ?b = Inr ab"
    by (simp add: mergeJobConfigs_def fragment_def)
  have l: "\<exists>x. mergeLeft ?a ?b ?c = Inr x"
    by (simp add: mergeLeft_def mergeJobConfigs_def fragment_def)
  have r: "\<exists>y. mergeRight ?a ?b ?c = Inr y"
    by (simp add: mergeRight_def mergeJobConfigs_def fragment_def)
  have ix: "index (Presubmits ?a) ''o/r'' = [presubmit0 ''a'']"
      "index (Presubmits ?b) ''o/r'' = [presubmit0 ''b'']"
      "index (Postsubmits ?a) ''o/r'' = [postsubmit0 ''a'']"
      "index (Postsubmits ?b) ''o/r'' = [postsubmit0 ''b'']"
      "Periodics ?a = [periodic0 ''a'']" "Periodics ?b = [periodic0 ''b'']"
    by (simp_all add: fragment_def index_def)
  from mergeJobConfigs_concat[OF ok] m l r ix show ?thesis
    using ok by fastforce
qed


section \<open>Properties of the default trigger\<close>

lemma prun_append:
  "prun pat st (xs @ ys) = (case prun pat st xs of Inl e \<Rightarrow> Inl e | Inr st' \<Rightarrow> prun pat st' ys)"
  by (induction xs arbitrary: st) (auto split: sum.splits)

lemma jobNameChar_plain:
  assumes "jobNameChar c"
  shows "c \<noteq> CHR 0x5C" "c \<noteq> CHR ''(''" "c \<noteq> CHR '')''" "c \<noteq> CHR ''|''" "c \<noteq> CHR ''*''"
    "c \<noteq> CHR ''+''" "c \<noteq> CHR ''?''" "c \<noteq> CHR ''^''" "c \<noteq> CHR ''$''" "c \<noteq> CHR ''[''"
    "c \<noteq> CHR ''{''" "c \<noteq> newline"
  using assms by (auto simp: jobNameChar_def newline_def)

lemma pnormal_jobNameChar:
  "jobNameChar c \<Longrightarrow> pnormal pat f fs c = Inr (Normal, atom (nameAtom c) f # fs)"
  by (simp add: pnormal_def nameAtom_def jobNameChar_plain)

lemma prun_name:
  "list_all jobNameChar (c # cs) \<Longrightarrow>
   prun pat (Normal, f # fs) (c # cs) =
     Inr (Normal, f\<lparr>cur := rev (map nameAtom (c # cs)) @ cur f, rep := False\<rparr> # fs)"
proof (induction cs arbitrary: c f)
  case Nil
  then show ?case by (simp add: pnormal_jobNameChar atom_def)
next
  case (Cons d ds)
  from Cons.prems have c: "jobNameChar c" and rest: "list_all jobNameChar (d # ds)" by simp_all
  show ?case
    using Cons.IH[OF rest, of "atom (nameAtom c) f"] c
    by (simp add: pnormal_jobNameChar atom_def)
qed


lemmas psimps = pnormal_def atom_def finish_def seqOf_def altOf_def repeat_def escaped_def alnum_def newline_def

lemma prun_trigger_prefix:
  "prun pat (Normal, [\<lparr>alts = [], cur = [], rep = False, multi = False\<rparr>]) ''(?m)^/test( | .* )'' =
   Inr (Normal, [\<lparr>alts = [], cur = triggerPrefix, rep = False, multi = True\<rparr>])"
  by (simp add: psimps triggerPrefix_def)

lemma prun_trigger_suffix:
  "prun pat (Normal, [\<lparr>alts = [], cur = cs, rep = False, multi = True\<rparr>])
     ('',?($|'' @ [CHR 0x5C] @ ''s.*)'') =
   Inr (Normal, [\<lparr>alts = [], cur = triggerSuffix @ cs, rep = False, multi = True\<rparr>])"
  by (simp add: psimps triggerSuffix_def)

lemma prun_trigger:
  assumes ok: "list_all jobNameChar (c # cs)"
  shows "prun pat (Normal, [\<lparr>alts = [], cur = [], rep = False, multi = False\<rparr>])
           (''(?m)^/test( | .* )'' @ (c # cs) @ suf) =
         prun pat (Normal, [\<lparr>alts = [], cur = rev (map nameAtom (c # cs)) @ triggerPrefix,
                        rep = False, multi = True\<rparr>]) suf"
  by (simp only: prun_append prun_trigger_prefix sum.case prun_name[OF ok] frame.simps)

lemma goCompile_DefaultTriggerFor:
  assumes "jobNameRegex_MatchString name"
  shows "goCompile (DefaultTriggerFor name) =
         Inr (seqOf (triggerSuffix @ rev (map nameAtom name) @ triggerPrefix))"
proof -
  from assms obtain c cs where name: "name = c # cs" and ok: "list_all jobNameChar (c # cs)"
    by (cases name) (auto simp: jobNameRegex_MatchString_def)
  show ?thesis
    unfolding goCompile_def DefaultTriggerFor_def name prun_trigger[OF ok] prun_trigger_suffix
    by (simp add: finish_def altOf_def)
qed

lemma ends_seqOf_aux:
  "ends (foldl (\<lambda>acc a. Seq a acc) acc rs) t ps = ends acc t (foldr (\<lambda>a qs. ends a t qs) rs ps)"
  by (induction rs arbitrary: acc) simp_all

lemma ends_seqOf: "ends (seqOf rs) t ps = foldr (\<lambda>a qs. ends a t qs) rs ps"
  by (simp add: seqOf_def ends_seqOf_aux)

lemma drop_ConsD:
  assumes "drop p t = c # r"
  shows "p < length t \<and> t ! p = c \<and> drop (Suc p) t = r"
proof -
  have lt: "p < length t" using assms by (cases "p < length t") auto
  from Cons_nth_drop_Suc[OF lt] assms show ?thesis using lt by simp
qed

lemma atoms_steps:
  "p \<in> set ps \<Longrightarrow> drop p t = w @ rest \<Longrightarrow> newline \<notin> set w \<Longrightarrow>
   p + length w \<in> set (foldr (\<lambda>a qs. ends a t qs) (rev (map nameAtom w)) ps)"
proof (induction w arbitrary: p ps)
  case Nil
  then show ?case by simp
next
  case (Cons c cs)
  from Cons.prems(2) have d: "p < length t" "t ! p = c" "drop (Suc p) t = cs @ rest"
    using drop_ConsD[of p t c "cs @ rest"] by simp_all
  have nl: "c \<noteq> newline" "newline \<notin> set cs" using Cons.prems(3) by auto
  have dot: "CHR ''.'' \<noteq> newline" by (simp add: newline_def)
  have step: "Suc p \<in> set (ends (nameAtom c) t ps)"
    using Cons.prems(1) d(1,2) nl(1) dot by (simp add: nameAtom_def image_iff)
  have "Suc p + length cs \<in> set (foldr (\<lambda>a qs. ends a t qs) (rev (map nameAtom cs)) (ends (nameAtom c) t ps))"
    by (rule Cons.IH[OF step d(3) nl(2)])
  then show ?case by simp
qed

lemma triggerPrefix_atoms:
  "triggerPrefix =
     Alt (Seq (Sym (Only '' '')) EmptyR)
        (Seq (Sym (Only '' '')) (Seq (Star (Sym (Except [newline]))) (Seq (Sym (Only '' '')) EmptyR)))
     # rev (map nameAtom ''/test'') @ [Bol True]"
  by (simp add: triggerPrefix_def nameAtom_def)

lemma prefix_steps:
  assumes "0 \<in> set ps" "drop 0 t = ''/test'' @ ('' '' @ rest)"
  shows "length ''/test '' \<in> set (foldr (\<lambda>a qs. ends a t qs) triggerPrefix ps)"
proof -
  let ?f = "\<lambda>a qs. ends a t qs"
  have 0: "0 \<in> set (ends (Bol True) t ps)" using assms(1) by simp
  have 5: "0 + length ''/test'' \<in> set (foldr ?f (rev (map nameAtom ''/test'')) (ends (Bol True) t ps))"
    by (rule atoms_steps[OF 0 assms(2)]) (simp add: newline_def)
  have "drop (0 + length ''/test'') t = '' '' @ rest"
    using assms(2) by (metis append_eq_conv_conj drop_drop add.commute)
  then have d: "length ''/test'' < length t" "t ! length ''/test'' = CHR '' ''"
    using drop_ConsD[of "length ''/test''" t "CHR '' ''" rest] by simp_all
  have "Suc (length ''/test'') \<in> set (ends (Sym (Only '' '')) t
          (foldr ?f (rev (map nameAtom ''/test'')) (ends (Bol True) t ps)))"
    using 5 d by (simp add: image_iff del: foldr.simps rev.simps list.map)
  then have "Suc (length ''/test'') \<in> set (foldr ?f triggerPrefix ps)"
    unfolding triggerPrefix_atoms by (simp del: rev.simps list.map)
  then show ?thesis by simp
qed

lemma suffix_steps:
  "length t \<in> set qs \<Longrightarrow> length t \<in> set (foldr (\<lambda>a qs. ends a t qs) triggerSuffix qs)"
  by (simp add: triggerSuffix_def)

text \<open>
  C8. For every job name that \<open>jobNameRegex\<close> accepts, the pattern \<open>DefaultTriggerFor name\<close>
  compiles, and the compiled expression matches \<open>DefaultRerunCommandFor name\<close>.
\<close>

theorem DefaultTriggerFor_matches_DefaultRerunCommandFor:
  assumes "jobNameRegex_MatchString name"
  shows "\<exists>r. goCompile (DefaultTriggerFor name) = Inr r \<and>
             goMatchString r (DefaultRerunCommandFor name)"
proof -
  define t where "t = DefaultRerunCommandFor name"
  define ps where "ps = [0..<Suc (length t)]"
  let ?f = "\<lambda>a qs. ends a t qs"
  have t: "t = ''/test '' @ name" by (simp add: t_def DefaultRerunCommandFor_def)
  have len: "length ''/test '' + length name = length t" by (simp add: t)
  have nl: "newline \<notin> set name"
    using assms jobNameChar_plain(12) by (auto simp: jobNameRegex_MatchString_def list_all_iff)
  have six: "length ''/test '' \<in> set (foldr ?f triggerPrefix ps)"
    by (rule prefix_steps[where rest = name]) (simp_all add: ps_def t)
  have "length ''/test '' + length name \<in>
          set (foldr ?f (rev (map nameAtom name)) (foldr ?f triggerPrefix ps))"
    by (rule atoms_steps[OF six _ nl, where rest = "[]"]) (simp add: t)
  then have "length t \<in> set (foldr ?f (rev (map nameAtom name)) (foldr ?f triggerPrefix ps))"
    by (simp only: len)
  then have "length t \<in> set (foldr ?f triggerSuffix
               (foldr ?f (rev (map nameAtom name)) (foldr ?f triggerPrefix ps)))"
    by (rule suffix_steps)
  then have "length t \<in> set (ends (seqOf (triggerSuffix @ rev (map nameAtom name) @ triggerPrefix)) t ps)"
    by (simp only: ends_seqOf foldr_append o_apply)
  then have "ends (seqOf (triggerSuffix @ rev (map nameAtom name) @ triggerPrefix)) t ps \<noteq> []"
    by (metis empty_iff list.set(1))
  then have "goMatchString (seqOf (triggerSuffix @ rev (map nameAtom name) @ triggerPrefix)) t"
    by (simp only: goMatchString_def ps_def simp_thms)
  then show ?thesis
    using goCompile_DefaultTriggerFor[OF assms] by (simp only: t_def sum.inject simp_thms ex_simps)
qed


theorem DefaultTriggerFor_matches_witness:
  "jobNameRegex_MatchString ''pull-unit.test_1'' \<and>
   (\<exists>r. goCompile (DefaultTriggerFor ''pull-unit.test_1'') = Inr r \<and>
        goMatchString r ''/test pull-unit.test_1'')"
proof -
  have ok: "jobNameRegex_MatchString ''pull-unit.test_1''"
    by (simp add: jobNameRegex_MatchString_def jobNameChar_def)
  from DefaultTriggerFor_matches_DefaultRerunCommandFor[OF ok] ok show ?thesis
    by (simp add: DefaultRerunCommandFor_def)
qed


section \<open>Properties of validation\<close>





lemma validatePresubmitsFrom_None_head:
  assumes "validatePresubmitsFrom x ns valid (q # post) = None"
  shows "\<not> list_ex (\<lambda>e. Intersects x (Presubmit.Brancher e) (Presubmit.Brancher q))
             (index valid (Name (Presubmit.JobBase q)))"
  using assms by (auto simp: Let_def split: if_splits)







lemma validatePostsubmitsFrom_None_head:
  assumes "validatePostsubmitsFrom x ns valid (q # post) = None"
  shows "\<not> list_ex (\<lambda>e. Intersects x (Postsubmit.Brancher e) (Postsubmit.Brancher q))
             (index valid (Name (Postsubmit.JobBase q)))"
  using assms by (auto simp: Let_def split: if_splits)






lemma validateJobConfig_None:
  assumes "validateJobConfig x c = (c', None)"
  shows "validateEachPresubmits x (PodNamespace c) (Presubmits c) = None"
    and "validateEachPostsubmits x (PodNamespace c) (Postsubmits c) = None"
    and "validatePeriodics x (Periodics c) (PodNamespace c) = None"
    and "setIntervals x (Periodics c) = (Periodics c', None)"
    and "Presubmits c' = Presubmits c" and "Postsubmits c' = Postsubmits c"
    and "Presets c' = Presets c" and "AllRepos c' = AllRepos c"
    and "Plank c' = Plank c" and "PodNamespace c' = PodNamespace c"
  using assms by (auto simp: validateJobConfig_def split: option.splits prod.splits)

lemma LoadWith_Some:
  assumes "LoadWith loaded fin vc vj = Returns (Some c', None)"
  shows "\<exists>c c1 c2. loaded = Returns (Inr c) \<and> fin c = Returns (c1, None) \<and>
           vc c1 = Returns (c2, None) \<and> vj c2 = Returns (c', None)"
  using assms
  by (auto simp: LoadWith_def LoadBody_def recovered_def
           split: outcome.splits sum.splits prod.splits option.splits)

lemma Load_Some:
  assumes "Load x loaded vc = Returns (Some c', None)"
  shows "\<exists>c c1. loaded = Returns (Inr c) \<and> finalizeJobConfig x c = Inr c1 \<and>
           vc c1 = Returns None \<and> validateJobConfig x c1 = (c', None)"
proof -
  from LoadWith_Some[OF assms[unfolded Load_def]]
  obtain c c1 c2 where l: "loaded = Returns (Inr c)"
    and f: "Returns (case finalizeJobConfig x c of Inl err \<Rightarrow> (c, Some err) | Inr c' \<Rightarrow> (c', None))
              = Returns (c1, None)"
    and v: "(case vc c1 of Panics r \<Rightarrow> Panics r | Returns err \<Rightarrow> Returns (c1, err)) = Returns (c2, None)"
    and j: "Returns (validateJobConfig x c2) = Returns (c', None)"
    by blast
  from f have f': "finalizeJobConfig x c = Inr c1" by (auto split: sum.splits)
  from v have v': "vc c1 = Returns None" "c2 = c1" by (auto split: outcome.splits)
  from l f' v' j show ?thesis by auto
qed

lemmas ex_simps = exampleExt_def jobBase0_def periodic0_def presubmit0_def postsubmit0_def brancher0_def
  exampleJob_def examplePresubmit_def examplePostsubmit_def exampleConfig_def exampleIntersects_def
  exampleParseDuration_def

lemmas validate_simps = validateJobConfig_def validatePeriodics_def validatePostsubmits_def
  validatePresubmits_def validateJobBase_def validateAgent_def validatePodSpec_def validateTriggering_def
  jobNameRegex_MatchString_def jobNameChar_def index_def

lemmas finalize_simps = finalizeJobConfig_def decorationRequested_def defaultPeriodics_def
  defaultPeriodicFields_def defaultJobBase_def defaultPresubmits_def defaultPostsubmits_def
  defaultPresubmitFields_def defaultPostsubmitFields_def defaultPresubmitField_def defaultPostsubmitField_def
  setPresubmitDecorationDefaults_def setPostsubmitDecorationDefaults_def setPeriodicDecorationDefaults_def
  setBrancherRegexes_def setChangeRegexes_def DefaultTriggerFor_def DefaultRerunCommandFor_def
  goCompile_def goMatchString_def psimps

lemmas load_simps = Load_def LoadWith_def LoadBody_def recovered_def

subsection \<open>Load always returns\<close>

lemma LoadWith_returns:
  "(\<exists>c'. LoadWith loaded fin vc vj = Returns (Some c', None)) \<or>
   (\<exists>e. LoadWith loaded fin vc vj = Returns (None, Some e))"
  by (auto simp: LoadWith_def LoadBody_def recovered_def
           split: outcome.splits sum.splits prod.splits option.splits)

lemma Load_returns:
  "(\<exists>c'. Load x loaded vc = Returns (Some c', None)) \<or>
   (\<exists>e. Load x loaded vc = Returns (None, Some e))"
  unfolding Load_def by (rule LoadWith_returns)


subsection \<open>What defaulting keeps of a presubmit\<close>







subsection \<open>The loops of finalizeJobConfig\<close>



lemma finalizePresubmits_frame:
  "finalizePresubmits x c todo = Inr c' \<Longrightarrow>
   Postsubmits c' = Postsubmits c \<and> Periodics c' = Periodics c \<and> Presets c' = Presets c \<and>
   Plank c' = Plank c \<and> PodNamespace c' = PodNamespace c"
proof (induction todo arbitrary: c)
  case Nil
  then show ?case by simp
next
  case (Cons a todo)
  obtain k jobs where a: "a = (k, jobs)" by (cases a)
  from Cons.prems obtain jobs' where
    f: "finalizePresubmits x
              (c\<lparr>Presubmits := store (Presubmits c) k jobs', AllRepos := List.insert k (AllRepos c)\<rparr>)
              todo = Inr c'"
    by (auto simp: a split: sum.splits)
  from Cons.IH[OF f] show ?case by simp
qed

lemma finalizePostsubmits_frame:
  "finalizePostsubmits x c todo = Inr c' \<Longrightarrow>
   Presubmits c' = Presubmits c \<and> Periodics c' = Periodics c \<and> Presets c' = Presets c \<and>
   Plank c' = Plank c \<and> PodNamespace c' = PodNamespace c"
proof (induction todo arbitrary: c)
  case Nil
  then show ?case by simp
next
  case (Cons a todo)
  obtain k jobs where a: "a = (k, jobs)" by (cases a)
  from Cons.prems obtain jobs' where
    f: "finalizePostsubmits x
              (c\<lparr>Postsubmits := store (Postsubmits c) k jobs', AllRepos := List.insert k (AllRepos c)\<rparr>)
              todo = Inr c'"
    by (auto simp: a split: sum.splits)
  from Cons.IH[OF f] show ?case by simp
qed



text \<open>The stages of \<open>finalizeJobConfig\<close>, when it returns a config.\<close>

lemma finalizeJobConfig_Inr:
  assumes "finalizeJobConfig x c = Inr c'"
  shows "\<exists>c1 c2 c3 periodics.
           (if decorationRequested c then decorationBlock x c else Inr c) = Inr c1 \<and>
           finalizePresubmits x c1 (Presubmits c1) = Inr c2 \<and>
           finalizePostsubmits x c2 (Postsubmits c2) = Inr c3 \<and>
           defaultPeriodics x (Periodics c3) c3 = Inr periodics \<and>
           c' = c3\<lparr>Periodics := periodics\<rparr>"
proof -
  obtain r1 where r1: "(if decorationRequested c then decorationBlock x c else Inr c) = r1" by simp
  show ?thesis
  proof (cases r1)
    case (Inl e)
    with assms r1 show ?thesis by (simp add: finalizeJobConfig_def)
  next
    case (Inr c1)
    note c1 = Inr
    show ?thesis
    proof (cases "finalizePresubmits x c1 (Presubmits c1)")
      case (Inl e)
      with assms r1 c1 show ?thesis by (simp add: finalizeJobConfig_def)
    next
      case (Inr c2)
      note c2 = Inr
      show ?thesis
      proof (cases "finalizePostsubmits x c2 (Postsubmits c2)")
        case (Inl e)
        with assms r1 c1 c2 show ?thesis by (simp add: finalizeJobConfig_def)
      next
        case (Inr c3)
        note c3 = Inr
        show ?thesis
        proof (cases "defaultPeriodics x (Periodics c3) c3")
          case (Inl e)
          with assms r1 c1 c2 c3 show ?thesis by (simp add: finalizeJobConfig_def)
        next
          case (Inr periodics)
          with assms r1 c1 c2 c3 show ?thesis by (simp add: finalizeJobConfig_def)
        qed
      qed
    qed
  qed
qed



subsection \<open>The same for postsubmits\<close>








subsection \<open>Load on a config with a duplicated job\<close>








text \<open>
  C9. The rule that "allow anyone" excludes an explicit allow-list is not applied to every
  job: \<open>validateJobBase\<close> returns before it reaches the rule when the job has no pod spec.
  The Jenkins job \<open>ambiguousJob\<close> sets both and passes \<open>validateJobBase\<close>,
  \<open>validateJobConfig\<close> and \<open>Load\<close>.
\<close>

theorem validateJobBase_skips_rerun_auth_without_spec:
  "validateJobBase exampleExt ambiguousJob PeriodicJob ''default'' = None \<and>
   snd (validateJobConfig exampleExt ambiguousConfig) = None \<and>
   (\<exists>c'. Load exampleExt (Returns (Inr ambiguousConfig)) (\<lambda>c. Returns None) =
           Returns (Some c', None))"
  by (simp add: ambiguousConfig_def ambiguousJob_def ex_simps validate_simps finalize_simps load_simps)

text \<open>With a pod spec that has a container, the rule is applied.\<close>

lemma validateJobBase_rerun_auth_with_spec:
  assumes "Spec v = Some sp" "Containers sp \<noteq> []" "RerunAuthConfig v = Some r" "AllowAnyone r"
    "GitHubUsers r \<noteq> [] \<or> GitHubTeamIDs r \<noteq> [] \<or> GitHubTeamSlugs r \<noteq> []"
  shows "validateJobBase x v jobType podNamespace \<noteq> None"
  using assms by (auto simp: validateJobBase_def split: option.splits list.splits)

section \<open>Properties of the periodic schedule check\<close>

lemma setIntervals_both_set:
  "Cron p \<noteq> [] \<Longrightarrow> Interval p \<noteq> [] \<Longrightarrow>
   setIntervals x (p # rest) =
     (p # rest, Some (Errorf ''cron and interval cannot be both set in periodic %s''
                        [S (Name (Periodic.JobBase p))]))"
  by simp

lemma setIntervals_both_empty:
  "Cron p = [] \<Longrightarrow> Interval p = [] \<Longrightarrow>
   setIntervals x (p # rest) =
     (p # rest, Some (Errorf ''cron and interval cannot be both empty in periodic %s''
                        [S (Name (Periodic.JobBase p))]))"
  by simp

lemma setIntervals_cron:
  "Cron p \<noteq> [] \<Longrightarrow> Interval p = [] \<Longrightarrow>
   setIntervals x (p # rest) = (p # fst (setIntervals x rest), snd (setIntervals x rest))"
  by (simp add: case_prod_beta)

lemma setIntervals_unparsed:
  "Cron p = [] \<Longrightarrow> Interval p \<noteq> [] \<Longrightarrow> ParseDuration x (Interval p) = Inl err \<Longrightarrow>
   setIntervals x (p # rest) =
     (p # rest, Some (Errorf ''cannot parse duration for %s: %v'' [S (Name (Periodic.JobBase p)), E err]))"
  by simp

lemma setIntervals_parsed:
  "Cron p = [] \<Longrightarrow> Interval p \<noteq> [] \<Longrightarrow> ParseDuration x (Interval p) = Inr d \<Longrightarrow>
   setIntervals x (p # rest) = (p\<lparr>interval := d\<rparr> # fst (setIntervals x rest), snd (setIntervals x rest))"
  by (simp add: case_prod_beta)

lemmas setIntervals_cases = setIntervals_both_set setIntervals_both_empty setIntervals_cron
  setIntervals_unparsed setIntervals_parsed

lemma setIntervals_Cons:
  "snd (setIntervals x (p # rest)) = None \<longleftrightarrow> scheduleOk x p \<and> snd (setIntervals x rest) = None"
  "scheduleOk x p \<Longrightarrow> fst (setIntervals x (p # rest)) = withInterval x p # fst (setIntervals x rest)"
  "map (\<lambda>p. p\<lparr>interval := 0\<rparr>) (fst (setIntervals x (p # rest))) =
     p\<lparr>interval := 0\<rparr> # map (\<lambda>p. p\<lparr>interval := 0\<rparr>) (if scheduleOk x p then fst (setIntervals x rest) else rest)"
  "scheduleOk x p \<Longrightarrow> snd (setIntervals x (p # rest)) = snd (setIntervals x rest)"
proof -
  consider (bs) "Cron p \<noteq> []" "Interval p \<noteq> []" | (be) "Cron p = []" "Interval p = []"
    | (cr) "Cron p \<noteq> []" "Interval p = []"
    | (bad) err where "Cron p = []" "Interval p \<noteq> []" "ParseDuration x (Interval p) = Inl err"
    | (ok) d where "Cron p = []" "Interval p \<noteq> []" "ParseDuration x (Interval p) = Inr d"
    by (cases "ParseDuration x (Interval p)") auto
  then have "(snd (setIntervals x (p # rest)) = None \<longleftrightarrow> scheduleOk x p \<and> snd (setIntervals x rest) = None) \<and>
    (scheduleOk x p \<longrightarrow> fst (setIntervals x (p # rest)) = withInterval x p # fst (setIntervals x rest)) \<and>
    map (\<lambda>p. p\<lparr>interval := 0\<rparr>) (fst (setIntervals x (p # rest))) =
     p\<lparr>interval := 0\<rparr> # map (\<lambda>p. p\<lparr>interval := 0\<rparr>) (if scheduleOk x p then fst (setIntervals x rest) else rest) \<and>
    (scheduleOk x p \<longrightarrow> snd (setIntervals x (p # rest)) = snd (setIntervals x rest))"
  proof cases
    case bs
    then show ?thesis by (simp add: setIntervals_both_set scheduleOk_def del: setIntervals.simps)
  next
    case be
    then show ?thesis by (simp add: setIntervals_both_empty scheduleOk_def del: setIntervals.simps)
  next
    case cr
    then show ?thesis by (simp add: setIntervals_cron scheduleOk_def withInterval_def del: setIntervals.simps)
  next
    case bad
    then show ?thesis by (simp add: setIntervals_unparsed scheduleOk_def del: setIntervals.simps)
  next
    case ok
    then show ?thesis by (simp add: setIntervals_parsed scheduleOk_def withInterval_def del: setIntervals.simps)
  qed
  then show "snd (setIntervals x (p # rest)) = None \<longleftrightarrow> scheduleOk x p \<and> snd (setIntervals x rest) = None"
    "scheduleOk x p \<Longrightarrow> fst (setIntervals x (p # rest)) = withInterval x p # fst (setIntervals x rest)"
    "map (\<lambda>p. p\<lparr>interval := 0\<rparr>) (fst (setIntervals x (p # rest))) =
     p\<lparr>interval := 0\<rparr> # map (\<lambda>p. p\<lparr>interval := 0\<rparr>) (if scheduleOk x p then fst (setIntervals x rest) else rest)"
    "scheduleOk x p \<Longrightarrow> snd (setIntervals x (p # rest)) = snd (setIntervals x rest)"
    by blast+
qed

lemma setIntervals_None_iff: "snd (setIntervals x ps) = None \<longleftrightarrow> list_all (scheduleOk x) ps"
  by (induction ps) (simp_all add: setIntervals_Cons(1) del: setIntervals.simps(2))

lemma setIntervals_written:
  "list_all (scheduleOk x) ps \<Longrightarrow> fst (setIntervals x ps) = map (withInterval x) ps"
  by (induction ps) (simp_all add: setIntervals_Cons(2) del: setIntervals.simps(2))

lemma setIntervals_frame:
  "map (\<lambda>p. p\<lparr>interval := 0\<rparr>) (fst (setIntervals x ps)) = map (\<lambda>p. p\<lparr>interval := 0\<rparr>) ps"
  by (induction ps) (simp_all add: setIntervals_Cons(3) del: setIntervals.simps(2))

lemma setIntervals_ok_prefix:
  "list_all (scheduleOk x) pre \<Longrightarrow> snd (setIntervals x (pre @ rest)) = snd (setIntervals x rest)"
  by (induction pre) (simp_all add: setIntervals_Cons(4) del: setIntervals.simps(2))

lemma setIntervals_at:
  assumes "j < length ps" "list_all (scheduleOk x) (take j ps)"
  shows "snd (setIntervals x ps) = snd (setIntervals x (ps ! j # drop (Suc j) ps))"
proof -
  have "ps = take j ps @ ps ! j # drop (Suc j) ps" using assms(1) by (simp add: id_take_nth_drop)
  then have "snd (setIntervals x ps) = snd (setIntervals x (take j ps @ ps ! j # drop (Suc j) ps))"
    by simp
  then show ?thesis using setIntervals_ok_prefix[OF assms(2)] by simp
qed

lemma validateJobConfig_reaches_loop:
  assumes "validateEachPresubmits x (PodNamespace c) (Presubmits c) = None"
    "validateEachPostsubmits x (PodNamespace c) (Postsubmits c) = None"
    "validatePeriodics x (Periodics c) (PodNamespace c) = None"
  shows "validateJobConfig x c =
           (c\<lparr>Periodics := fst (setIntervals x (Periodics c))\<rparr>, snd (setIntervals x (Periodics c)))"
  using assms by (simp add: validateJobConfig_def case_prod_beta)

lemma validateJobConfig_cases:
  "validateJobConfig x c = (c, snd (validateJobConfig x c)) \<and> snd (validateJobConfig x c) \<noteq> None \<or>
   validateJobConfig x c =
     (c\<lparr>Periodics := fst (setIntervals x (Periodics c))\<rparr>, snd (setIntervals x (Periodics c)))"
  by (simp add: validateJobConfig_def case_prod_beta split: option.splits)

lemma validateJobConfig_fails:
  assumes "\<not> list_all (scheduleOk x) (Periodics c)"
  shows "snd (validateJobConfig x c) \<noteq> None"
  using validateJobConfig_cases[of x c] assms setIntervals_None_iff[of x "Periodics c"]
  by (metis snd_conv)

lemma validateJobConfig_ok:
  assumes "snd (validateJobConfig x c) = None"
  shows "list_all (scheduleOk x) (Periodics c)"
    and "fst (validateJobConfig x c) = c\<lparr>Periodics := map (withInterval x) (Periodics c)\<rparr>"
proof -
  show ok: "list_all (scheduleOk x) (Periodics c)"
    using validateJobConfig_fails[of x c] assms by blast
  from validateJobConfig_cases[of x c] assms
  have "validateJobConfig x c =
     (c\<lparr>Periodics := fst (setIntervals x (Periodics c))\<rparr>, snd (setIntervals x (Periodics c)))"
    by blast
  then show "fst (validateJobConfig x c) = c\<lparr>Periodics := map (withInterval x) (Periodics c)\<rparr>"
    by (simp add: setIntervals_written[OF ok])
qed

lemma validateJobConfig_frame:
  "Presubmits (fst (validateJobConfig x c)) = Presubmits c"
  "Postsubmits (fst (validateJobConfig x c)) = Postsubmits c"
  "Presets (fst (validateJobConfig x c)) = Presets c"
  "AllRepos (fst (validateJobConfig x c)) = AllRepos c"
  "Plank (fst (validateJobConfig x c)) = Plank c"
  "PodNamespace (fst (validateJobConfig x c)) = PodNamespace c"
  "map (\<lambda>p. p\<lparr>interval := 0\<rparr>) (Periodics (fst (validateJobConfig x c))) =
     map (\<lambda>p. p\<lparr>interval := 0\<rparr>) (Periodics c)"
  using validateJobConfig_cases[of x c] setIntervals_frame[of x "Periodics c"]
  by (auto simp del: setIntervals.simps)

lemma setIntervals_stops:
  "\<not> scheduleOk x p \<Longrightarrow> fst (setIntervals x (p # rest)) = p # rest"
  by (auto simp: scheduleOk_def split: sum.splits)

lemma setIntervals_state:
  "fst (setIntervals x ps) =
     map (withInterval x) (takeWhile (scheduleOk x) ps) @ dropWhile (scheduleOk x) ps"
proof (induction ps)
  case Nil
  then show ?case by simp
next
  case (Cons p ps)
  show ?case
  proof (cases "scheduleOk x p")
    case True
    then show ?thesis using Cons.IH by (simp add: setIntervals_Cons(2) del: setIntervals.simps(2))
  next
    case False
    then show ?thesis by (simp add: setIntervals_stops del: setIntervals.simps(2))
  qed
qed

lemma validateJobConfig_state:
  "fst (validateJobConfig x c) =
     (if validateEachPresubmits x (PodNamespace c) (Presubmits c) = None \<and>
         validateEachPostsubmits x (PodNamespace c) (Postsubmits c) = None \<and>
         validatePeriodics x (Periodics c) (PodNamespace c) = None
      then c\<lparr>Periodics := map (withInterval x) (takeWhile (scheduleOk x) (Periodics c)) @
                           dropWhile (scheduleOk x) (Periodics c)\<rparr>
      else c)"
  by (simp add: validateJobConfig_def case_prod_beta setIntervals_state split: option.splits
        del: setIntervals.simps)

lemmas ex_simps2 = ex_simps examplePeriodic_def scheduledConfig_def clashingConfig_def

text \<open>
  C5 (amended). \<open>validateJobConfig\<close> returns an error whenever some periodic has both cron
  and interval set, or both empty, or an interval alone that does not parse. The error
  names the first such periodic of the list, and only when the checks that come before the
  loop (the presubmits, the postsubmits, \<open>validatePeriodics\<close>) pass: for the periodic at
  index \<open>j\<close>, when those checks and the periodics before \<open>j\<close> pass, the error is the one of
  that periodic and names it. In every config that \<open>Load\<close> returns each periodic has
  exactly one of cron and interval, and an interval that parses.
\<close>

theorem periodic_schedule_checked:
  "(\<forall>p \<in> set (Periodics c).
      (Cron p \<noteq> [] \<and> Interval p \<noteq> []) \<or> (Cron p = [] \<and> Interval p = []) \<or>
      (Cron p = [] \<and> (\<exists>err. ParseDuration x (Interval p) = Inl err)) \<longrightarrow>
      snd (validateJobConfig x c) \<noteq> None) \<and>
   (\<forall>j. j < length (Periodics c) \<and>
        validateEachPresubmits x (PodNamespace c) (Presubmits c) = None \<and>
        validateEachPostsubmits x (PodNamespace c) (Postsubmits c) = None \<and>
        validatePeriodics x (Periodics c) (PodNamespace c) = None \<and>
        snd (setIntervals x (take j (Periodics c))) = None \<longrightarrow>
      (Cron (Periodics c ! j) \<noteq> [] \<and> Interval (Periodics c ! j) \<noteq> [] \<longrightarrow>
         snd (validateJobConfig x c) =
           Some (Errorf ''cron and interval cannot be both set in periodic %s''
                   [S (Name (Periodic.JobBase (Periodics c ! j)))])) \<and>
      (Cron (Periodics c ! j) = [] \<and> Interval (Periodics c ! j) = [] \<longrightarrow>
         snd (validateJobConfig x c) =
           Some (Errorf ''cron and interval cannot be both empty in periodic %s''
                   [S (Name (Periodic.JobBase (Periodics c ! j)))])) \<and>
      (\<forall>err. Cron (Periodics c ! j) = [] \<and> Interval (Periodics c ! j) \<noteq> [] \<and>
         ParseDuration x (Interval (Periodics c ! j)) = Inl err \<longrightarrow>
         snd (validateJobConfig x c) =
           Some (Errorf ''cannot parse duration for %s: %v''
                   [S (Name (Periodic.JobBase (Periodics c ! j))), E err]))) \<and>
   (Load x loaded vc = Returns (Some c', None) \<longrightarrow>
      (\<forall>p \<in> set (Periodics c').
         (Cron p = []) \<noteq> (Interval p = []) \<and>
         (Cron p = [] \<longrightarrow> ParseDuration x (Interval p) = Inr (interval p))))"
proof (intro conjI ballI allI impI)
  fix p
  assume p: "p \<in> set (Periodics c)"
    and bad: "(Cron p \<noteq> [] \<and> Interval p \<noteq> []) \<or> (Cron p = [] \<and> Interval p = []) \<or>
      (Cron p = [] \<and> (\<exists>err. ParseDuration x (Interval p) = Inl err))"
  from bad have "\<not> scheduleOk x p" by (auto simp: scheduleOk_def)
  with p have "\<not> list_all (scheduleOk x) (Periodics c)" by (auto simp: list_all_iff)
  then show "snd (validateJobConfig x c) \<noteq> None" by (rule validateJobConfig_fails)
next
  fix j
  assume h: "j < length (Periodics c) \<and>
        validateEachPresubmits x (PodNamespace c) (Presubmits c) = None \<and>
        validateEachPostsubmits x (PodNamespace c) (Postsubmits c) = None \<and>
        validatePeriodics x (Periodics c) (PodNamespace c) = None \<and>
        snd (setIntervals x (take j (Periodics c))) = None"
  let ?p = "Periodics c ! j"
  from h have pre: "list_all (scheduleOk x) (take j (Periodics c))"
    by (simp add: setIntervals_None_iff)
  from h have "validateJobConfig x c =
           (c\<lparr>Periodics := fst (setIntervals x (Periodics c))\<rparr>, snd (setIntervals x (Periodics c)))"
    by (intro validateJobConfig_reaches_loop) simp_all
  then have at: "snd (validateJobConfig x c) = snd (setIntervals x (?p # drop (Suc j) (Periodics c)))"
    using setIntervals_at[OF _ pre] h by simp
  {
    assume "Cron ?p \<noteq> [] \<and> Interval ?p \<noteq> []"
    then show "snd (validateJobConfig x c) =
           Some (Errorf ''cron and interval cannot be both set in periodic %s''
                   [S (Name (Periodic.JobBase ?p))])"
      by (simp add: at setIntervals_both_set del: setIntervals.simps)
  }
  {
    assume "Cron ?p = [] \<and> Interval ?p = []"
    then show "snd (validateJobConfig x c) =
           Some (Errorf ''cron and interval cannot be both empty in periodic %s''
                   [S (Name (Periodic.JobBase ?p))])"
      by (simp add: at setIntervals_both_empty del: setIntervals.simps)
  }
  {
    fix err
    assume "Cron ?p = [] \<and> Interval ?p \<noteq> [] \<and> ParseDuration x (Interval ?p) = Inl err"
    then show "snd (validateJobConfig x c) =
           Some (Errorf ''cannot parse duration for %s: %v''
                   [S (Name (Periodic.JobBase ?p)), E err])"
      by (simp add: at setIntervals_unparsed del: setIntervals.simps)
  }
next
  fix p
  assume l: "Load x loaded vc = Returns (Some c', None)" and p: "p \<in> set (Periodics c')"
  from Load_Some[OF l] obtain c2 where v: "validateJobConfig x c2 = (c', None)" by blast
  then have s: "snd (validateJobConfig x c2) = None" and f: "fst (validateJobConfig x c2) = c'"
    by simp_all
  from validateJobConfig_ok[OF s] f
  have ok: "list_all (scheduleOk x) (Periodics c2)"
    and w: "Periodics c' = map (withInterval x) (Periodics c2)"
    by auto
  from p w obtain q where q: "q \<in> set (Periodics c2)" "p = withInterval x q" by auto
  from ok q(1) have "scheduleOk x q" by (simp add: list_all_iff)
  then show "(Cron p = []) \<noteq> (Interval p = [])"
    and "Cron p = [] \<Longrightarrow> ParseDuration x (Interval p) = Inr (interval p)"
    by (auto simp: q(2) scheduleOk_def withInterval_def split: sum.splits)
qed

theorem periodic_schedule_checked_witness:
  "snd (validateJobConfig exampleExt clashingConfig) =
     Some (Errorf ''cron and interval cannot be both set in periodic %s'' [S ''both'']) \<and>
   (\<exists>c'. Load exampleExt (Returns (Inr scheduledConfig)) (\<lambda>c. Returns None) = Returns (Some c', None) \<and>
      map (\<lambda>p. (Cron p, Interval p, interval p)) (Periodics c') =
        [(''0 3 * * *'', [], 0), ([], ''1h'', 3600000000000)] \<and>
      (\<forall>p \<in> set (Periodics c').
         (Cron p = []) \<noteq> (Interval p = []) \<and>
         (Cron p = [] \<longrightarrow> ParseDuration exampleExt (Interval p) = Inr (interval p))))"
proof -
  note t = periodic_schedule_checked[of clashingConfig exampleExt "Returns (Inr scheduledConfig)"
             "\<lambda>c. Returns None"]
  have h: "1 < length (Periodics clashingConfig) \<and>
        validateEachPresubmits exampleExt (PodNamespace clashingConfig) (Presubmits clashingConfig) = None \<and>
        validateEachPostsubmits exampleExt (PodNamespace clashingConfig) (Postsubmits clashingConfig) = None \<and>
        validatePeriodics exampleExt (Periodics clashingConfig) (PodNamespace clashingConfig) = None \<and>
        snd (setIntervals exampleExt (take 1 (Periodics clashingConfig))) = None"
    by (simp add: ex_simps2 validate_simps)
  have b: "Cron (Periodics clashingConfig ! 1) \<noteq> [] \<and> Interval (Periodics clashingConfig ! 1) \<noteq> []"
    "Name (Periodic.JobBase (Periodics clashingConfig ! 1)) = ''both''"
    by (simp_all add: ex_simps2)
  from t[THEN conjunct2, THEN conjunct1, rule_format, OF h, THEN conjunct1, rule_format, OF b(1)]
  have a: "snd (validateJobConfig exampleExt clashingConfig) =
     Some (Errorf ''cron and interval cannot be both set in periodic %s'' [S ''both''])"
    by (simp only: b(2))
  have "\<exists>c'. Load exampleExt (Returns (Inr scheduledConfig)) (\<lambda>c. Returns None) = Returns (Some c', None) \<and>
      map (\<lambda>p. (Cron p, Interval p, interval p)) (Periodics c') =
        [(''0 3 * * *'', [], 0), ([], ''1h'', 3600000000000)]"
    by (simp add: ex_simps2 validate_simps finalize_simps load_simps)
  then obtain c' where
    l: "Load exampleExt (Returns (Inr scheduledConfig)) (\<lambda>c. Returns None) = Returns (Some c', None)"
    and m: "map (\<lambda>p. (Cron p, Interval p, interval p)) (Periodics c') =
        [(''0 3 * * *'', [], 0), ([], ''1h'', 3600000000000)]"
    by (elim exE conjE)
  have inv: "\<forall>p \<in> set (Periodics c').
         (Cron p = []) \<noteq> (Interval p = []) \<and>
         (Cron p = [] \<longrightarrow> ParseDuration exampleExt (Interval p) = Inr (interval p))"
    using t[THEN conjunct2, THEN conjunct2, rule_format, OF l] by (intro ballI)
  show ?thesis
    by (rule conjI[OF a], rule exI[of _ c'], intro conjI, rule l, rule m, rule inv)
qed

text \<open>
  C5 as worded does not hold: it gives, for every periodic with both cron and interval
  set, an error naming that periodic. In \<open>twoBad\<close> the periodic \<open>second\<close> sets both, and
  the error returned names \<open>first\<close>.
\<close>

theorem periodic_schedule_checked_counterexample:
  "Cron (Periodics twoBad ! 1) = ''0 * * * *'' \<and> Interval (Periodics twoBad ! 1) = ''1h'' \<and>
   Name (Periodic.JobBase (Periodics twoBad ! 1)) = ''second'' \<and>
   snd (validateJobConfig exampleExt twoBad) =
     Some (Errorf ''cron and interval cannot be both set in periodic %s'' [S ''first''])"
  by (simp add: twoBad_def ex_simps2 validate_simps)

text \<open>
  C10 (amended). \<open>validateJobConfig\<close> writes the parsed duration into the field \<open>interval\<close>
  of the periodics it accepts before it returns: when it returns no error, that is every
  periodic whose interval is set; when one of the checks before the loop fails, nothing is
  written; when the loop stops at a periodic it refuses, the periodics before that one are
  written and that one and all after it are left as they were, also those whose interval is
  set. Whether it returns an error or not, it changes nothing else in the config: the
  presubmits, the postsubmits and all other fields of the periodics are as before. In
  \<open>Load\<close> this happens after \<open>finalizeJobConfig\<close>.
\<close>

theorem validateJobConfig_writes_interval_only:
  "(snd (validateJobConfig x c) = None \<longrightarrow>
      fst (validateJobConfig x c) = c\<lparr>Periodics := map (withInterval x) (Periodics c)\<rparr> \<and>
      (\<forall>p \<in> set (Periodics c). Interval p \<noteq> [] \<longrightarrow>
         (\<exists>d. ParseDuration x (Interval p) = Inr d \<and> withInterval x p = p\<lparr>interval := d\<rparr>)) \<and>
      (\<forall>p \<in> set (Periodics c). Interval p = [] \<longrightarrow> withInterval x p = p)) \<and>
   Presubmits (fst (validateJobConfig x c)) = Presubmits c \<and>
   Postsubmits (fst (validateJobConfig x c)) = Postsubmits c \<and>
   Presets (fst (validateJobConfig x c)) = Presets c \<and>
   AllRepos (fst (validateJobConfig x c)) = AllRepos c \<and>
   Plank (fst (validateJobConfig x c)) = Plank c \<and>
   PodNamespace (fst (validateJobConfig x c)) = PodNamespace c \<and>
   map (\<lambda>p. p\<lparr>interval := 0\<rparr>) (Periodics (fst (validateJobConfig x c))) =
     map (\<lambda>p. p\<lparr>interval := 0\<rparr>) (Periodics c) \<and>
   (Load x loaded vc = Returns (Some c', None) \<longrightarrow>
      (\<exists>c0 c1. loaded = Returns (Inr c0) \<and> finalizeJobConfig x c0 = Inr c1 \<and>
         vc c1 = Returns None \<and> c' = c1\<lparr>Periodics := map (withInterval x) (Periodics c1)\<rparr>)) \<and>
   fst (validateJobConfig x c) =
     (if validateEachPresubmits x (PodNamespace c) (Presubmits c) = None \<and>
         validateEachPostsubmits x (PodNamespace c) (Postsubmits c) = None \<and>
         validatePeriodics x (Periodics c) (PodNamespace c) = None
      then c\<lparr>Periodics := map (withInterval x) (takeWhile (scheduleOk x) (Periodics c)) @
                           dropWhile (scheduleOk x) (Periodics c)\<rparr>
      else c)"
proof (intro conjI impI ballI)
  assume s: "snd (validateJobConfig x c) = None"
  show "fst (validateJobConfig x c) = c\<lparr>Periodics := map (withInterval x) (Periodics c)\<rparr>"
    by (rule validateJobConfig_ok(2)[OF s])
  fix p
  assume p: "p \<in> set (Periodics c)"
  from validateJobConfig_ok(1)[OF s] p have ok: "scheduleOk x p" by (simp add: list_all_iff)
  {
    assume "Interval p \<noteq> []"
    with ok show "\<exists>d. ParseDuration x (Interval p) = Inr d \<and> withInterval x p = p\<lparr>interval := d\<rparr>"
      by (auto simp: scheduleOk_def withInterval_def)
  }
  {
    assume "Interval p = []"
    then show "withInterval x p = p" by (simp add: withInterval_def)
  }
next
  assume l: "Load x loaded vc = Returns (Some c', None)"
  from Load_Some[OF l] obtain c0 c1 where h: "loaded = Returns (Inr c0)"
    "finalizeJobConfig x c0 = Inr c1" "vc c1 = Returns None" "validateJobConfig x c1 = (c', None)"
    by blast
  from h(4) have "snd (validateJobConfig x c1) = None" "fst (validateJobConfig x c1) = c'" by simp_all
  with validateJobConfig_ok(2)[of x c1] have "c' = c1\<lparr>Periodics := map (withInterval x) (Periodics c1)\<rparr>"
    by simp
  with h show "\<exists>c0 c1. loaded = Returns (Inr c0) \<and> finalizeJobConfig x c0 = Inr c1 \<and>
         vc c1 = Returns None \<and> c' = c1\<lparr>Periodics := map (withInterval x) (Periodics c1)\<rparr>"
    by blast
qed (rule validateJobConfig_frame validateJobConfig_state)+

theorem validateJobConfig_writes_interval_witness:
  "snd (validateJobConfig exampleExt scheduledConfig) = None \<and>
   interval (Periodics scheduledConfig ! 1) = 0 \<and>
   interval (Periodics (fst (validateJobConfig exampleExt scheduledConfig)) ! 1) = 3600000000000 \<and>
   fst (validateJobConfig exampleExt scheduledConfig) \<noteq> scheduledConfig \<and>
   map (\<lambda>p. (Name (Periodic.JobBase p), Interval p, interval p))
       (Periodics (fst (validateJobConfig exampleExt partialConfig))) =
     [(''hourly'', ''1h'', 3600000000000), (''empty'', [], 0), (''half'', ''30m'', 0)]"
proof -
  have s: "snd (validateJobConfig exampleExt scheduledConfig) = None"
    by (simp add: ex_simps2 validate_simps)
  have w: "withInterval exampleExt (Periodics scheduledConfig ! 1) =
           (Periodics scheduledConfig ! 1)\<lparr>interval := 3600000000000\<rparr>"
    by (simp add: ex_simps2 withInterval_def)
  have z: "interval (Periodics scheduledConfig ! 1) = 0" by (simp add: ex_simps2)
  have len: "length (Periodics scheduledConfig) = 2" by (simp add: ex_simps2)
  from validateJobConfig_writes_interval_only[of exampleExt scheduledConfig, THEN conjunct1, rule_format, OF s]
  have f: "fst (validateJobConfig exampleExt scheduledConfig) =
           scheduledConfig\<lparr>Periodics := map (withInterval exampleExt) (Periodics scheduledConfig)\<rparr>"
    by (rule conjunct1)
  have i: "interval (Periodics (fst (validateJobConfig exampleExt scheduledConfig)) ! 1) = 3600000000000"
    using w by (simp add: f len)
  have "Periodics (fst (validateJobConfig exampleExt scheduledConfig)) \<noteq> Periodics scheduledConfig"
    using i z by (metis zero_neq_numeral)
  then have ne: "fst (validateJobConfig exampleExt scheduledConfig) \<noteq> scheduledConfig" by auto
  have before: "validateEachPresubmits exampleExt (PodNamespace partialConfig) (Presubmits partialConfig) = None \<and>
      validateEachPostsubmits exampleExt (PodNamespace partialConfig) (Postsubmits partialConfig) = None \<and>
      validatePeriodics exampleExt (Periodics partialConfig) (PodNamespace partialConfig) = None"
    by (simp add: partialConfig_def ex_simps2 validate_simps)
  have split: "takeWhile (scheduleOk exampleExt) (Periodics partialConfig) = [examplePeriodic ''hourly'' [] ''1h'']"
    "dropWhile (scheduleOk exampleExt) (Periodics partialConfig) =
       [examplePeriodic ''empty'' [] [], examplePeriodic ''half'' [] ''30m'']"
    by (simp_all add: partialConfig_def ex_simps2 scheduleOk_def)
  have st: "fst (validateJobConfig exampleExt partialConfig) =
      partialConfig\<lparr>Periodics := map (withInterval exampleExt) (takeWhile (scheduleOk exampleExt) (Periodics partialConfig)) @
                           dropWhile (scheduleOk exampleExt) (Periodics partialConfig)\<rparr>"
    using validateJobConfig_writes_interval_only[of exampleExt partialConfig, THEN conjunct2, THEN conjunct2,
            THEN conjunct2, THEN conjunct2, THEN conjunct2, THEN conjunct2, THEN conjunct2, THEN conjunct2,
            THEN conjunct2]
    by (simp only: before simp_thms if_True)
  have p: "map (\<lambda>p. (Name (Periodic.JobBase p), Interval p, interval p))
       (Periodics (fst (validateJobConfig exampleExt partialConfig))) =
     [(''hourly'', ''1h'', 3600000000000), (''empty'', [], 0), (''half'', ''30m'', 0)]"
    by (simp add: st split) (simp add: ex_simps2 withInterval_def)
  show ?thesis by (intro conjI) (rule s z i ne p)+
qed

text \<open>
  C10 as worded does not hold: it has the parsed duration written for every periodic whose
  interval is set. In \<open>partialConfig\<close> the third periodic sets the interval \<open>30m\<close>, which
  parses, and \<open>validateJobConfig\<close> leaves its field \<open>interval\<close> at zero, because the loop
  has stopped at the second periodic; the first periodic has been written.
\<close>

theorem validateJobConfig_writes_interval_counterexample:
  "Interval (Periodics partialConfig ! 2) = ''30m'' \<and>
   ParseDuration exampleExt ''30m'' = Inr 1800000000000 \<and>
   interval (Periodics (fst (validateJobConfig exampleExt partialConfig)) ! 2) = 0 \<and>
   interval (Periodics (fst (validateJobConfig exampleExt partialConfig)) ! 0) = 3600000000000"
  by (simp add: partialConfig_def ex_simps2 validate_simps)

section \<open>Properties of Load\<close>

lemma LoadWith_panics:
  "loaded = Panics r \<Longrightarrow>
     LoadWith loaded fin vcomp vjob = Returns (None, Some (Errorf ''panic loading config: %v'' [S r]))"
  "loaded = Returns (Inr c0) \<Longrightarrow> fin c0 = Panics r \<Longrightarrow>
     LoadWith loaded fin vcomp vjob = Returns (None, Some (Errorf ''panic loading config: %v'' [S r]))"
  "loaded = Returns (Inr c0) \<Longrightarrow> fin c0 = Returns (c1, None) \<Longrightarrow> vcomp c1 = Panics r \<Longrightarrow>
     LoadWith loaded fin vcomp vjob = Returns (None, Some (Errorf ''panic loading config: %v'' [S r]))"
  "loaded = Returns (Inr c0) \<Longrightarrow> fin c0 = Returns (c1, None) \<Longrightarrow> vcomp c1 = Returns (c2, None) \<Longrightarrow>
     vjob c2 = Panics r \<Longrightarrow>
     LoadWith loaded fin vcomp vjob = Returns (None, Some (Errorf ''panic loading config: %v'' [S r]))"
  by (simp_all add: LoadWith_def LoadBody_def recovered_def)

lemma LoadWith_Some_iff:
  "LoadWith loaded fin vcomp vjob = Returns (Some c', None) \<longleftrightarrow>
     (\<exists>c0 c1 c2. loaded = Returns (Inr c0) \<and> fin c0 = Returns (c1, None) \<and>
        vcomp c1 = Returns (c2, None) \<and> vjob c2 = Returns (c', None))"
  by (auto simp: LoadWith_def LoadBody_def recovered_def
           split: outcome.splits sum.splits prod.splits option.splits)

lemma Load_Some_iff:
  "Load x loaded vc = Returns (Some c', None) \<longleftrightarrow>
     (\<exists>c0 c1. loaded = Returns (Inr c0) \<and> finalizeJobConfig x c0 = Inr c1 \<and>
        vc c1 = Returns None \<and> validateJobConfig x c1 = (c', None))"
proof
  assume "Load x loaded vc = Returns (Some c', None)"
  from Load_Some[OF this] show "\<exists>c0 c1. loaded = Returns (Inr c0) \<and> finalizeJobConfig x c0 = Inr c1 \<and>
        vc c1 = Returns None \<and> validateJobConfig x c1 = (c', None)" by blast
next
  assume "\<exists>c0 c1. loaded = Returns (Inr c0) \<and> finalizeJobConfig x c0 = Inr c1 \<and>
        vc c1 = Returns None \<and> validateJobConfig x c1 = (c', None)"
  then show "Load x loaded vc = Returns (Some c', None)"
    by (auto simp: Load_def LoadWith_def LoadBody_def recovered_def)
qed

lemma Load_panics:
  "loaded = Panics r \<Longrightarrow>
     Load x loaded vc = Returns (None, Some (Errorf ''panic loading config: %v'' [S r]))"
  "loaded = Returns (Inr c0) \<Longrightarrow> finalizeJobConfig x c0 = Inr c1 \<Longrightarrow> vc c1 = Panics r \<Longrightarrow>
     Load x loaded vc = Returns (None, Some (Errorf ''panic loading config: %v'' [S r]))"
  by (simp_all add: Load_def LoadWith_def LoadBody_def recovered_def)

lemma Load_finalize_error:
  "finalizeJobConfig x c = Inl e \<Longrightarrow> Load x (Returns (Inr c)) vc = Returns (None, Some e)"
  by (simp add: Load_def LoadWith_def LoadBody_def recovered_def)

text \<open>
  C1. \<open>Load\<close> never panics: it returns either a config and no error, or no config and an
  error. A panic of any stage (loading, \<open>finalizeJobConfig\<close>, which defaults and compiles,
  \<open>validateComponentConfig\<close>, \<open>validateJobConfig\<close>) is turned into the returned error
  \<open>panic loading config\<close>. It returns a config exactly when every stage has returned
  without error, and the config is the one the last stage leaves. This is proved of the
  body of \<open>Load\<close> with its deferred function for stages that may each return or panic
  (\<open>LoadWith\<close>), and of \<open>Load\<close> with the stages as modelled from the source.
\<close>

theorem Load_returns_config_or_error:
  "((\<exists>c'. LoadWith loaded fin vcomp vjob = Returns (Some c', None)) \<or>
    (\<exists>e. LoadWith loaded fin vcomp vjob = Returns (None, Some e))) \<and>
   (\<forall>r. loaded = Panics r \<longrightarrow>
      LoadWith loaded fin vcomp vjob = Returns (None, Some (Errorf ''panic loading config: %v'' [S r]))) \<and>
   (\<forall>r c0. loaded = Returns (Inr c0) \<and> fin c0 = Panics r \<longrightarrow>
      LoadWith loaded fin vcomp vjob = Returns (None, Some (Errorf ''panic loading config: %v'' [S r]))) \<and>
   (\<forall>r c0 c1. loaded = Returns (Inr c0) \<and> fin c0 = Returns (c1, None) \<and> vcomp c1 = Panics r \<longrightarrow>
      LoadWith loaded fin vcomp vjob = Returns (None, Some (Errorf ''panic loading config: %v'' [S r]))) \<and>
   (\<forall>r c0 c1 c2. loaded = Returns (Inr c0) \<and> fin c0 = Returns (c1, None) \<and>
        vcomp c1 = Returns (c2, None) \<and> vjob c2 = Panics r \<longrightarrow>
      LoadWith loaded fin vcomp vjob = Returns (None, Some (Errorf ''panic loading config: %v'' [S r]))) \<and>
   (\<forall>c'. (LoadWith loaded fin vcomp vjob = Returns (Some c', None)) =
      (\<exists>c0 c1 c2. loaded = Returns (Inr c0) \<and> fin c0 = Returns (c1, None) \<and>
         vcomp c1 = Returns (c2, None) \<and> vjob c2 = Returns (c', None))) \<and>
   ((\<exists>c'. Load x loaded vc = Returns (Some c', None)) \<or>
    (\<exists>e. Load x loaded vc = Returns (None, Some e))) \<and>
   (\<forall>r. loaded = Panics r \<longrightarrow>
      Load x loaded vc = Returns (None, Some (Errorf ''panic loading config: %v'' [S r]))) \<and>
   (\<forall>r c0 c1. loaded = Returns (Inr c0) \<and> finalizeJobConfig x c0 = Inr c1 \<and> vc c1 = Panics r \<longrightarrow>
      Load x loaded vc = Returns (None, Some (Errorf ''panic loading config: %v'' [S r]))) \<and>
   (\<forall>c'. (Load x loaded vc = Returns (Some c', None)) =
      (\<exists>c0 c1. loaded = Returns (Inr c0) \<and> finalizeJobConfig x c0 = Inr c1 \<and>
         vc c1 = Returns None \<and> validateJobConfig x c1 = (c', None)))"
proof (intro conjI allI impI)
  show "(\<exists>c'. LoadWith loaded fin vcomp vjob = Returns (Some c', None)) \<or>
    (\<exists>e. LoadWith loaded fin vcomp vjob = Returns (None, Some e))"
    by (rule LoadWith_returns)
  show "(\<exists>c'. Load x loaded vc = Returns (Some c', None)) \<or>
    (\<exists>e. Load x loaded vc = Returns (None, Some e))"
    by (rule Load_returns)
next
  fix r assume "loaded = Panics r"
  then show "LoadWith loaded fin vcomp vjob = Returns (None, Some (Errorf ''panic loading config: %v'' [S r]))"
    by (rule LoadWith_panics(1))
next
  fix r c0 assume "loaded = Returns (Inr c0) \<and> fin c0 = Panics r"
  then show "LoadWith loaded fin vcomp vjob = Returns (None, Some (Errorf ''panic loading config: %v'' [S r]))"
    using LoadWith_panics(2) by blast
next
  fix r c0 c1 assume "loaded = Returns (Inr c0) \<and> fin c0 = Returns (c1, None) \<and> vcomp c1 = Panics r"
  then show "LoadWith loaded fin vcomp vjob = Returns (None, Some (Errorf ''panic loading config: %v'' [S r]))"
    using LoadWith_panics(3) by blast
next
  fix r c0 c1 c2 assume "loaded = Returns (Inr c0) \<and> fin c0 = Returns (c1, None) \<and>
        vcomp c1 = Returns (c2, None) \<and> vjob c2 = Panics r"
  then show "LoadWith loaded fin vcomp vjob = Returns (None, Some (Errorf ''panic loading config: %v'' [S r]))"
    using LoadWith_panics(4) by blast
next
  fix c'
  show "(LoadWith loaded fin vcomp vjob = Returns (Some c', None)) =
      (\<exists>c0 c1 c2. loaded = Returns (Inr c0) \<and> fin c0 = Returns (c1, None) \<and>
         vcomp c1 = Returns (c2, None) \<and> vjob c2 = Returns (c', None))"
    by (rule LoadWith_Some_iff)
next
  fix r assume "loaded = Panics r"
  then show "Load x loaded vc = Returns (None, Some (Errorf ''panic loading config: %v'' [S r]))"
    by (rule Load_panics(1))
next
  fix r c0 c1 assume "loaded = Returns (Inr c0) \<and> finalizeJobConfig x c0 = Inr c1 \<and> vc c1 = Panics r"
  then show "Load x loaded vc = Returns (None, Some (Errorf ''panic loading config: %v'' [S r]))"
    using Load_panics(2) by blast
next
  fix c'
  show "(Load x loaded vc = Returns (Some c', None)) =
      (\<exists>c0 c1. loaded = Returns (Inr c0) \<and> finalizeJobConfig x c0 = Inr c1 \<and>
         vc c1 = Returns None \<and> validateJobConfig x c1 = (c', None))"
    by (rule Load_Some_iff)
qed

theorem Load_returns_config_or_error_witness:
  "Load exampleExt (Panics ''assignment to entry in nil map'') (\<lambda>c. Returns None) =
     Returns (None, Some (Errorf ''panic loading config: %v'' [S ''assignment to entry in nil map''])) \<and>
   Load exampleExt (Returns (Inr scheduledConfig)) panicsAtComponent =
     Returns (None, Some (Errorf ''panic loading config: %v''
        [S ''runtime error: invalid memory address or nil pointer dereference''])) \<and>
   LoadWith (Returns (Inr scheduledConfig)) (\<lambda>c. Panics ''index out of range'')
       (\<lambda>c. Returns (c, None)) (\<lambda>c. Returns (c, None)) =
     Returns (None, Some (Errorf ''panic loading config: %v'' [S ''index out of range''])) \<and>
   (\<exists>c'. Load exampleExt (Returns (Inr scheduledConfig)) (\<lambda>c. Returns None) = Returns (Some c', None))"
proof -
  have f: "\<exists>c1. finalizeJobConfig exampleExt scheduledConfig = Inr c1"
    by (simp add: ex_simps2 finalize_simps)
  then obtain c1 where c1: "finalizeJobConfig exampleExt scheduledConfig = Inr c1" by (elim exE)
  have a: "Load exampleExt (Panics ''assignment to entry in nil map'') (\<lambda>c. Returns None) =
     Returns (None, Some (Errorf ''panic loading config: %v'' [S ''assignment to entry in nil map'']))"
    using Load_returns_config_or_error[of "Panics ''assignment to entry in nil map''"
        "\<lambda>c. Returns (c, None)" "\<lambda>c. Returns (c, None)" "\<lambda>c. Returns (c, None)"
        exampleExt "\<lambda>c. Returns None",
        THEN conjunct2, THEN conjunct2, THEN conjunct2, THEN conjunct2, THEN conjunct2, THEN conjunct2,
        THEN conjunct2, THEN conjunct1, rule_format, OF refl] .
  have h: "Returns (Inr scheduledConfig) = Returns (Inr scheduledConfig) \<and>
      finalizeJobConfig exampleExt scheduledConfig = Inr c1 \<and>
      panicsAtComponent c1 = Panics ''runtime error: invalid memory address or nil pointer dereference''"
    using c1 by (simp add: panicsAtComponent_def)
  have b: "Load exampleExt (Returns (Inr scheduledConfig)) panicsAtComponent =
     Returns (None, Some (Errorf ''panic loading config: %v''
        [S ''runtime error: invalid memory address or nil pointer dereference'']))"
    using Load_returns_config_or_error[of "Returns (Inr scheduledConfig)"
        "\<lambda>c. Returns (c, None)" "\<lambda>c. Returns (c, None)" "\<lambda>c. Returns (c, None)"
        exampleExt panicsAtComponent,
        THEN conjunct2, THEN conjunct2, THEN conjunct2, THEN conjunct2, THEN conjunct2, THEN conjunct2,
        THEN conjunct2, THEN conjunct2, THEN conjunct1, rule_format, OF h] .
  have g: "Returns (Inr scheduledConfig) = Returns (Inr scheduledConfig) \<and>
      (\<lambda>c :: regex Config. (Panics ''index out of range'' :: (regex Config \<times> error option) outcome))
        scheduledConfig = Panics ''index out of range''"
    by simp
  have c: "LoadWith (Returns (Inr scheduledConfig)) (\<lambda>c. Panics ''index out of range'')
       (\<lambda>c. Returns (c, None)) (\<lambda>c. Returns (c, None)) =
     Returns (None, Some (Errorf ''panic loading config: %v'' [S ''index out of range'']))"
    using Load_returns_config_or_error[of "Returns (Inr scheduledConfig)"
        "\<lambda>c. Panics ''index out of range''" "\<lambda>c. Returns (c, None)" "\<lambda>c. Returns (c, None)"
        exampleExt "\<lambda>c. Returns None",
        THEN conjunct2, THEN conjunct2, THEN conjunct1, rule_format, OF g] .
  have v: "\<exists>c1 c'. finalizeJobConfig exampleExt scheduledConfig = Inr c1 \<and>
      validateJobConfig exampleExt c1 = (c', None)"
    by (simp add: ex_simps2 validate_simps finalize_simps)
  then obtain c2 c' where v2: "finalizeJobConfig exampleExt scheduledConfig = Inr c2"
    "validateJobConfig exampleExt c2 = (c', None)"
    by (elim exE conjE)
  have e: "\<exists>c0 c1. Returns (Inr scheduledConfig) = Returns (Inr c0) \<and>
      finalizeJobConfig exampleExt c0 = Inr c1 \<and> (\<lambda>c. Returns None) c1 = Returns None \<and>
      validateJobConfig exampleExt c1 = (c', None)"
    by (rule exI[of _ scheduledConfig], rule exI[of _ c2]) (simp add: v2)
  have d: "Load exampleExt (Returns (Inr scheduledConfig)) (\<lambda>c. Returns None) = Returns (Some c', None)"
    using Load_returns_config_or_error[of "Returns (Inr scheduledConfig)"
        "\<lambda>c. Returns (c, None)" "\<lambda>c. Returns (c, None)" "\<lambda>c. Returns (c, None)"
        exampleExt "\<lambda>c. Returns None",
        THEN conjunct2, THEN conjunct2, THEN conjunct2, THEN conjunct2, THEN conjunct2, THEN conjunct2,
        THEN conjunct2, THEN conjunct2, THEN conjunct2, rule_format, of c'] e
    by simp
  show ?thesis by (intro conjI exI[of _ c']) (rule a b c d)+
qed

section \<open>Properties of the trigger check\<close>













subsection \<open>Every list that \<open>finalizeJobConfig\<close> leaves has been compiled\<close>






section \<open>Properties of the decoration defaults\<close>

lemma finalizeJobConfig_decoration_errors:
  assumes "decorationRequested c"
  shows "DefaultDecorationConfig (Plank c) \<noteq> None \<Longrightarrow> DefaultDecorationConfigs (Plank c) \<noteq> [] \<Longrightarrow>
      finalizeJobConfig x c =
        Inl (Errorf ''both default_decoration_config and default_decoration_configs are specified'' [])"
    and "DefaultDecorationConfig (Plank c) = None \<Longrightarrow> DefaultDecorationConfigs (Plank c) = [] \<Longrightarrow>
      finalizeJobConfig x c =
        Inl (Errorf ''both default_decoration_config and default_decoration_configs['*'] are missing'' [])"
    and "DefaultDecorationConfig (Plank c) = None \<Longrightarrow> DefaultDecorationConfigs (Plank c) \<noteq> [] \<Longrightarrow>
      map_of (DefaultDecorationConfigs (Plank c)) ''*'' = None \<Longrightarrow>
      finalizeJobConfig x c = Inl (Errorf ''default_decoration_configs['*'] is missing'' [])"
    and "DefaultDecorationConfig (Plank c) = None \<Longrightarrow>
      map_of (DefaultDecorationConfigs (Plank c)) ''*'' = Some star \<Longrightarrow> Validate x star = Some err \<Longrightarrow>
      finalizeJobConfig x c = Inl (Errorf ''decoration config validation error: %v'' [E err])"
    and "DefaultDecorationConfig (Plank c) = Some dc \<Longrightarrow> DefaultDecorationConfigs (Plank c) = [] \<Longrightarrow>
      Validate x (Some dc) = Some err \<Longrightarrow>
      finalizeJobConfig x c = Inl (Errorf ''decoration config validation error: %v'' [E err])"
  using assms
  by (auto simp: finalizeJobConfig_def decorationBlock_def migrateDefault_def split: option.splits)

lemma decorationBlock_wildcard:
  assumes "decorationBlock x c = Inr c1"
  shows "\<exists>star. map_of (DefaultDecorationConfigs (Plank c1)) ''*'' = Some star \<and> Validate x star = None"
  using assms
  by (auto simp: decorationBlock_def migrateDefault_def split: sum.splits option.splits if_splits)

lemma finalizeJobConfig_wildcard:
  assumes f: "finalizeJobConfig x c = Inr c'" and d: "decorationRequested c"
  shows "\<exists>star. map_of (DefaultDecorationConfigs (Plank c')) ''*'' = Some star \<and> Validate x star = None"
proof -
  from finalizeJobConfig_Inr[OF f] d obtain c1 c2 c3 periodics where
    h: "decorationBlock x c = Inr c1"
       "finalizePresubmits x c1 (Presubmits c1) = Inr c2"
       "finalizePostsubmits x c2 (Postsubmits c2) = Inr c3"
       "c' = c3\<lparr>Periodics := periodics\<rparr>"
    by auto
  from finalizePresubmits_frame[OF h(2)] finalizePostsubmits_frame[OF h(3)] h(4)
  have "Plank c' = Plank c1" by simp
  with decorationBlock_wildcard[OF h(1)] show ?thesis by simp
qed

subsection \<open>Without a job that asks for decoration, \<open>Plank\<close> is not read\<close>

lemma Plank_update_commutes:
  fixes c :: "'re Config"
  shows "(c\<lparr>Plank := pl\<rparr>)\<lparr>Presubmits := p, AllRepos := a\<rparr> = (c\<lparr>Presubmits := p, AllRepos := a\<rparr>)\<lparr>Plank := pl\<rparr>"
    and "(c\<lparr>Plank := pl\<rparr>)\<lparr>Postsubmits := q, AllRepos := a\<rparr> = (c\<lparr>Postsubmits := q, AllRepos := a\<rparr>)\<lparr>Plank := pl\<rparr>"
    and "(c\<lparr>Plank := pl\<rparr>)\<lparr>Periodics := ps\<rparr> = (c\<lparr>Periodics := ps\<rparr>)\<lparr>Plank := pl\<rparr>"
  by (cases c; simp)+

lemma decoratePresubmits_Plank:
  "\<forall>j \<in> set jobs. \<not> Decorate (Presubmit.JobBase j) \<Longrightarrow>
   decoratePresubmits x (c\<lparr>Plank := pl\<rparr>) repo jobs = decoratePresubmits x c repo jobs"
  by (induction jobs) (simp_all add: setPresubmitDecorationDefaults_def split: sum.splits)

lemma decoratePostsubmits_Plank:
  "\<forall>j \<in> set jobs. \<not> Decorate (Postsubmit.JobBase j) \<Longrightarrow>
   decoratePostsubmits x (c\<lparr>Plank := pl\<rparr>) repo jobs = decoratePostsubmits x c repo jobs"
  by (induction jobs) (simp_all add: setPostsubmitDecorationDefaults_def split: sum.splits)

lemma finalizePresubmits_Plank:
  "\<forall>(repo, jobs) \<in> set todo. \<forall>j \<in> set jobs. \<not> Decorate (Presubmit.JobBase j) \<Longrightarrow>
   finalizePresubmits x (c\<lparr>Plank := pl\<rparr>) todo =
     (case finalizePresubmits x c todo of Inl e \<Rightarrow> Inl e | Inr c' \<Rightarrow> Inr (c'\<lparr>Plank := pl\<rparr>))"
proof (induction todo arbitrary: c)
  case Nil
  then show ?case by simp
next
  case (Cons a todo)
  obtain k jobs where a: "a = (k, jobs)" by (cases a)
  from Cons.prems have nd: "\<forall>j \<in> set jobs. \<not> Decorate (Presubmit.JobBase j)"
    and rest: "\<forall>(repo, jobs) \<in> set todo. \<forall>j \<in> set jobs. \<not> Decorate (Presubmit.JobBase j)"
    by (auto simp: a)
  have d: "defaultPresubmits x jobs (c\<lparr>Plank := pl\<rparr>) k = defaultPresubmits x jobs c k"
    by (simp add: defaultPresubmits_def decoratePresubmits_Plank[OF nd] split: sum.splits)
  show ?case
  proof (cases "defaultPresubmits x jobs c k")
    case (Inl e)
    then show ?thesis by (simp add: a d)
  next
    case (Inr jobs')
    have "finalizePresubmits x (c\<lparr>Plank := pl\<rparr>) (a # todo) =
          finalizePresubmits x
            ((c\<lparr>Presubmits := store (Presubmits c) k jobs', AllRepos := List.insert k (AllRepos c)\<rparr>)\<lparr>Plank := pl\<rparr>)
            todo"
      by (simp add: a d Inr Plank_update_commutes)
    also have "\<dots> = (case finalizePresubmits x
            (c\<lparr>Presubmits := store (Presubmits c) k jobs', AllRepos := List.insert k (AllRepos c)\<rparr>) todo of
              Inl e \<Rightarrow> Inl e | Inr c' \<Rightarrow> Inr (c'\<lparr>Plank := pl\<rparr>))"
      by (rule Cons.IH[OF rest])
    finally show ?thesis by (simp add: a Inr)
  qed
qed

lemma finalizePostsubmits_Plank:
  "\<forall>(repo, jobs) \<in> set todo. \<forall>j \<in> set jobs. \<not> Decorate (Postsubmit.JobBase j) \<Longrightarrow>
   finalizePostsubmits x (c\<lparr>Plank := pl\<rparr>) todo =
     (case finalizePostsubmits x c todo of Inl e \<Rightarrow> Inl e | Inr c' \<Rightarrow> Inr (c'\<lparr>Plank := pl\<rparr>))"
proof (induction todo arbitrary: c)
  case Nil
  then show ?case by simp
next
  case (Cons a todo)
  obtain k jobs where a: "a = (k, jobs)" by (cases a)
  from Cons.prems have nd: "\<forall>j \<in> set jobs. \<not> Decorate (Postsubmit.JobBase j)"
    and rest: "\<forall>(repo, jobs) \<in> set todo. \<forall>j \<in> set jobs. \<not> Decorate (Postsubmit.JobBase j)"
    by (auto simp: a)
  have d: "defaultPostsubmits x jobs (c\<lparr>Plank := pl\<rparr>) k = defaultPostsubmits x jobs c k"
    by (simp add: defaultPostsubmits_def decoratePostsubmits_Plank[OF nd] split: sum.splits)
  show ?case
  proof (cases "defaultPostsubmits x jobs c k")
    case (Inl e)
    then show ?thesis by (simp add: a d)
  next
    case (Inr jobs')
    have "finalizePostsubmits x (c\<lparr>Plank := pl\<rparr>) (a # todo) =
          finalizePostsubmits x
            ((c\<lparr>Postsubmits := store (Postsubmits c) k jobs', AllRepos := List.insert k (AllRepos c)\<rparr>)\<lparr>Plank := pl\<rparr>)
            todo"
      by (simp add: a d Inr Plank_update_commutes)
    also have "\<dots> = (case finalizePostsubmits x
            (c\<lparr>Postsubmits := store (Postsubmits c) k jobs', AllRepos := List.insert k (AllRepos c)\<rparr>) todo of
              Inl e \<Rightarrow> Inl e | Inr c' \<Rightarrow> Inr (c'\<lparr>Plank := pl\<rparr>))"
      by (rule Cons.IH[OF rest])
    finally show ?thesis by (simp add: a Inr)
  qed
qed

lemma finalizeJobConfig_Plank:
  assumes "\<not> decorationRequested c"
  shows "finalizeJobConfig x (c\<lparr>Plank := pl\<rparr>) =
     (case finalizeJobConfig x c of Inl e \<Rightarrow> Inl e | Inr c' \<Rightarrow> Inr (c'\<lparr>Plank := pl\<rparr>))"
proof -
  from assms have pre: "\<forall>(repo, jobs) \<in> set (Presubmits c). \<forall>j \<in> set jobs. \<not> Decorate (Presubmit.JobBase j)"
    and post: "\<forall>(repo, jobs) \<in> set (Postsubmits c). \<forall>j \<in> set jobs. \<not> Decorate (Postsubmit.JobBase j)"
    by (auto simp: decorationRequested_def list_ex_iff)
  from assms have nd: "\<not> decorationRequested (c\<lparr>Plank := pl\<rparr>)"
    by (simp add: decorationRequested_def)
  show ?thesis
  proof (cases "finalizePresubmits x c (Presubmits c)")
    case (Inl e)
    then show ?thesis using assms nd finalizePresubmits_Plank[OF pre, where x=x and c=c and pl=pl]
      by (simp add: finalizeJobConfig_def)
  next
    case (Inr c2)
    note c2 = Inr
    from finalizePresubmits_frame[OF c2] have p2: "Postsubmits c2 = Postsubmits c" by simp
    show ?thesis
    proof (cases "finalizePostsubmits x c2 (Postsubmits c2)")
      case (Inl e)
      then show ?thesis
        using assms nd finalizePresubmits_Plank[OF pre, where x=x and c=c and pl=pl] c2
          finalizePostsubmits_Plank[OF post[folded p2], where x=x and c=c2 and pl=pl] p2
        by (simp add: finalizeJobConfig_def)
    next
      case (Inr c3)
      then show ?thesis
        using assms nd finalizePresubmits_Plank[OF pre, where x=x and c=c and pl=pl] c2
          finalizePostsubmits_Plank[OF post[folded p2], where x=x and c=c2 and pl=pl] p2
        by (simp add: finalizeJobConfig_def defaultPeriodics_def split: sum.splits)
    qed
  qed
qed

text \<open>
  C6 (amended). When some job asks for decoration, \<open>finalizeJobConfig\<close>, and with it
  \<open>Load\<close>, fails: with the error that both are specified, when the deprecated single
  default is set beside a map that is not empty; with an error that the wildcard default is
  missing, when the deprecated default is not set and the map is empty or has no entry
  \<open>*\<close>; and with a decoration config validation error, which is not a missing-wildcard
  error, when the wildcard entry (or the deprecated default moved under \<open>*\<close>) does not
  validate. A config that \<open>Load\<close> returns for such an input has a wildcard entry that
  validates. When no job asks for decoration, \<open>finalizeJobConfig\<close> does not read the
  decoration defaults: with any other \<open>Plank\<close> it gives the same error, or the same config
  with that \<open>Plank\<close>.
\<close>

theorem decoration_defaults_required:
  "(decorationRequested c \<longrightarrow>
      (DefaultDecorationConfig (Plank c) \<noteq> None \<and> DefaultDecorationConfigs (Plank c) \<noteq> [] \<longrightarrow>
         finalizeJobConfig x c =
           Inl (Errorf ''both default_decoration_config and default_decoration_configs are specified'' [])) \<and>
      (DefaultDecorationConfig (Plank c) = None \<and> DefaultDecorationConfigs (Plank c) = [] \<longrightarrow>
         finalizeJobConfig x c =
           Inl (Errorf ''both default_decoration_config and default_decoration_configs['*'] are missing'' [])) \<and>
      (DefaultDecorationConfig (Plank c) = None \<and> DefaultDecorationConfigs (Plank c) \<noteq> [] \<and>
       map_of (DefaultDecorationConfigs (Plank c)) ''*'' = None \<longrightarrow>
         finalizeJobConfig x c = Inl (Errorf ''default_decoration_configs['*'] is missing'' [])) \<and>
      (\<forall>star err. DefaultDecorationConfig (Plank c) = None \<and>
         map_of (DefaultDecorationConfigs (Plank c)) ''*'' = Some star \<and> Validate x star = Some err \<longrightarrow>
         finalizeJobConfig x c = Inl (Errorf ''decoration config validation error: %v'' [E err])) \<and>
      (\<forall>dc err. DefaultDecorationConfig (Plank c) = Some dc \<and> DefaultDecorationConfigs (Plank c) = [] \<and>
         Validate x (Some dc) = Some err \<longrightarrow>
         finalizeJobConfig x c = Inl (Errorf ''decoration config validation error: %v'' [E err])) \<and>
      (\<forall>c'. Load x (Returns (Inr c)) vc = Returns (Some c', None) \<longrightarrow>
         (\<exists>star. map_of (DefaultDecorationConfigs (Plank c')) ''*'' = Some star \<and> Validate x star = None))) \<and>
   (\<forall>e. finalizeJobConfig x c = Inl e \<longrightarrow> Load x (Returns (Inr c)) vc = Returns (None, Some e)) \<and>
   (\<not> decorationRequested c \<longrightarrow>
      (\<forall>pl. finalizeJobConfig x (c\<lparr>Plank := pl\<rparr>) =
         (case finalizeJobConfig x c of Inl e \<Rightarrow> Inl e | Inr c' \<Rightarrow> Inr (c'\<lparr>Plank := pl\<rparr>))))"
proof (intro conjI impI allI)
  assume d: "decorationRequested c"
  note e = finalizeJobConfig_decoration_errors[OF d, where x=x]
  {
    assume "DefaultDecorationConfig (Plank c) \<noteq> None \<and> DefaultDecorationConfigs (Plank c) \<noteq> []"
    then show "finalizeJobConfig x c =
           Inl (Errorf ''both default_decoration_config and default_decoration_configs are specified'' [])"
      using e(1) by blast
  }
  {
    assume "DefaultDecorationConfig (Plank c) = None \<and> DefaultDecorationConfigs (Plank c) = []"
    then show "finalizeJobConfig x c =
           Inl (Errorf ''both default_decoration_config and default_decoration_configs['*'] are missing'' [])"
      using e(2) by blast
  }
  {
    assume "DefaultDecorationConfig (Plank c) = None \<and> DefaultDecorationConfigs (Plank c) \<noteq> [] \<and>
       map_of (DefaultDecorationConfigs (Plank c)) ''*'' = None"
    then show "finalizeJobConfig x c = Inl (Errorf ''default_decoration_configs['*'] is missing'' [])"
      using e(3) by blast
  }
  {
    fix star err
    assume "DefaultDecorationConfig (Plank c) = None \<and>
         map_of (DefaultDecorationConfigs (Plank c)) ''*'' = Some star \<and> Validate x star = Some err"
    then show "finalizeJobConfig x c = Inl (Errorf ''decoration config validation error: %v'' [E err])"
      using e(4) by blast
  }
  {
    fix dc err
    assume "DefaultDecorationConfig (Plank c) = Some dc \<and> DefaultDecorationConfigs (Plank c) = [] \<and>
         Validate x (Some dc) = Some err"
    then show "finalizeJobConfig x c = Inl (Errorf ''decoration config validation error: %v'' [E err])"
      using e(5) by blast
  }
  {
    fix c'
    assume l: "Load x (Returns (Inr c)) vc = Returns (Some c', None)"
    from Load_Some[OF l] obtain c1 where f: "finalizeJobConfig x c = Inr c1"
      and v: "validateJobConfig x c1 = (c', None)" by auto
    from validateJobConfig_None(9)[OF v] finalizeJobConfig_wildcard[OF f d]
    show "\<exists>star. map_of (DefaultDecorationConfigs (Plank c')) ''*'' = Some star \<and> Validate x star = None"
      by simp
  }
next
  fix e assume "finalizeJobConfig x c = Inl e"
  then show "Load x (Returns (Inr c)) vc = Returns (None, Some e)" by (rule Load_finalize_error)
next
  fix pl assume "\<not> decorationRequested c"
  then show "finalizeJobConfig x (c\<lparr>Plank := pl\<rparr>) =
         (case finalizeJobConfig x c of Inl e \<Rightarrow> Inl e | Inr c' \<Rightarrow> Inr (c'\<lparr>Plank := pl\<rparr>))"
    by (rule finalizeJobConfig_Plank)
qed

lemmas ex_simps6 = ex_simps2 decoratedConfig_def decoratedJob_def noDefaults_def orgDefaultsOnly_def
  wildcardDefaults_def

theorem decoration_defaults_required_witness:
  "Load exampleExt (Returns (Inr (decoratedConfig noDefaults))) (\<lambda>c. Returns None) =
     Returns (None, Some (Errorf
       ''both default_decoration_config and default_decoration_configs['*'] are missing'' [])) \<and>
   Load exampleExt (Returns (Inr (decoratedConfig orgDefaultsOnly))) (\<lambda>c. Returns None) =
     Returns (None, Some (Errorf ''default_decoration_configs['*'] is missing'' [])) \<and>
   (\<exists>c'. Load exampleExt (Returns (Inr (decoratedConfig wildcardDefaults))) (\<lambda>c. Returns None) =
           Returns (Some c', None) \<and>
         map_of (DefaultDecorationConfigs (Plank c')) ''*'' = Some (Some [(''timeout'', ''2h'')])) \<and>
   finalizeJobConfig exampleExt (scheduledConfig\<lparr>Plank := wildcardDefaults\<rparr>) =
     (case finalizeJobConfig exampleExt scheduledConfig of
        Inl e \<Rightarrow> Inl e | Inr c' \<Rightarrow> Inr (c'\<lparr>Plank := wildcardDefaults\<rparr>))"
proof -
  have d: "decorationRequested (decoratedConfig pl)" for pl
    by (simp add: ex_simps6 decorationRequested_def)
  note t1 = decoration_defaults_required[of "decoratedConfig noDefaults" exampleExt "\<lambda>c. Returns None"]
  have h1: "DefaultDecorationConfig (Plank (decoratedConfig noDefaults)) = None \<and>
      DefaultDecorationConfigs (Plank (decoratedConfig noDefaults)) = []"
    by (simp add: ex_simps6)
  from t1[THEN conjunct1, rule_format, OF d, THEN conjunct2, THEN conjunct1, rule_format, OF h1]
  have f1: "finalizeJobConfig exampleExt (decoratedConfig noDefaults) =
      Inl (Errorf ''both default_decoration_config and default_decoration_configs['*'] are missing'' [])" .
  from t1[THEN conjunct2, THEN conjunct1, rule_format, OF f1]
  have a: "Load exampleExt (Returns (Inr (decoratedConfig noDefaults))) (\<lambda>c. Returns None) =
     Returns (None, Some (Errorf
       ''both default_decoration_config and default_decoration_configs['*'] are missing'' []))" .
  note t2 = decoration_defaults_required[of "decoratedConfig orgDefaultsOnly" exampleExt "\<lambda>c. Returns None"]
  have h2: "DefaultDecorationConfig (Plank (decoratedConfig orgDefaultsOnly)) = None \<and>
      DefaultDecorationConfigs (Plank (decoratedConfig orgDefaultsOnly)) \<noteq> [] \<and>
      map_of (DefaultDecorationConfigs (Plank (decoratedConfig orgDefaultsOnly))) ''*'' = None"
    by (simp add: ex_simps6)
  from t2[THEN conjunct1, rule_format, OF d, THEN conjunct2, THEN conjunct2, THEN conjunct1, rule_format, OF h2]
  have f2: "finalizeJobConfig exampleExt (decoratedConfig orgDefaultsOnly) =
      Inl (Errorf ''default_decoration_configs['*'] is missing'' [])" .
  from t2[THEN conjunct2, THEN conjunct1, rule_format, OF f2]
  have b: "Load exampleExt (Returns (Inr (decoratedConfig orgDefaultsOnly))) (\<lambda>c. Returns None) =
     Returns (None, Some (Errorf ''default_decoration_configs['*'] is missing'' []))" .
  have "\<exists>c'. Load exampleExt (Returns (Inr (decoratedConfig wildcardDefaults))) (\<lambda>c. Returns None) =
           Returns (Some c', None) \<and>
         map_of (DefaultDecorationConfigs (Plank c')) ''*'' = Some (Some [(''timeout'', ''2h'')])"
    by (simp add: ex_simps6 validate_simps finalize_simps load_simps decorationBlock_def migrateDefault_def
          decorated_def GetDefaultDecorationConfigs_def indexPtr_def orgOf_def)
  then have c: "\<exists>c'. Load exampleExt (Returns (Inr (decoratedConfig wildcardDefaults))) (\<lambda>c. Returns None) =
           Returns (Some c', None) \<and>
         map_of (DefaultDecorationConfigs (Plank c')) ''*'' = Some (Some [(''timeout'', ''2h'')])" .
  have nd: "\<not> decorationRequested scheduledConfig"
    by (simp add: ex_simps2 decorationRequested_def)
  from decoration_defaults_required[of scheduledConfig exampleExt "\<lambda>c. Returns None",
         THEN conjunct2, THEN conjunct2, rule_format, OF nd]
  have e: "finalizeJobConfig exampleExt (scheduledConfig\<lparr>Plank := wildcardDefaults\<rparr>) =
     (case finalizeJobConfig exampleExt scheduledConfig of
        Inl e \<Rightarrow> Inl e | Inr c' \<Rightarrow> Inr (c'\<lparr>Plank := wildcardDefaults\<rparr>))" .
  show ?thesis by (intro conjI) (rule a b c e)+
qed

text \<open>
  C6 as worded does not hold: it gives a missing-wildcard-default error whenever the
  wildcard entry does not validate. In \<open>decoratedConfig wildcardDefaults\<close> a periodic asks
  for decoration and the wildcard entry is there; with a \<open>Validate\<close> that refuses it,
  \<open>Load\<close> fails with the decoration config validation error.
\<close>

theorem decoration_defaults_required_counterexample:
  "decorationRequested (decoratedConfig wildcardDefaults) \<and>
   map_of (DefaultDecorationConfigs (Plank (decoratedConfig wildcardDefaults))) ''*'' =
     Some (Some [(''timeout'', ''2h'')]) \<and>
   Validate strictExt (Some [(''timeout'', ''2h'')]) =
     Some (Errorf ''utility image config is not specified'' []) \<and>
   Load strictExt (Returns (Inr (decoratedConfig wildcardDefaults))) (\<lambda>c. Returns None) =
     Returns (None, Some (Errorf ''decoration config validation error: %v''
        [E (Errorf ''utility image config is not specified'' [])]))"
  by (simp add: ex_simps6 strictExt_def strictValidate_def fieldOf_def
        decorationRequested_def finalize_simps load_simps decorationBlock_def migrateDefault_def)

section \<open>Properties of the decoration default lookup\<close>








end
